theory Spec2Isabelle
  imports Main
begin

section \<open>Python primitives used by the bot\<close>

text \<open>
  \<open>str(i)\<close> for a Python integer: the canonical decimal rendering, with a leading minus
  sign for negative values. It is what an f-string produces for \<open>{i}\<close>.
\<close>

definition digit_char :: "nat \<Rightarrow> char" where
  "digit_char d = ''0123456789'' ! d"

fun str_nat :: "nat \<Rightarrow> string" where
  "str_nat n = (if n < 10 then [digit_char n] else str_nat (n div 10) @ [digit_char (n mod 10)])"

declare str_nat.simps [simp del]

definition str_int :: "int \<Rightarrow> string" where
  "str_int i = (if i < 0 then CHR ''-'' # str_nat (nat (- i)) else str_nat (nat i))"

text \<open>
  Strings are lists of \<open>char\<close>, and a \<open>char\<close> stands for the code point of the same
  number, so the texts of the model are the Python strings whose code points are below
  256. \<open>is_space\<close> holds of the code points of that range that Python counts as whitespace
  (\<open>str.isspace\<close>): the ASCII ones, U+0085 and U+00A0. The whitespace code points above
  255 (U+1680, U+2000 to U+200A, U+2028, U+2029, U+202F, U+205F, U+3000) have no \<open>char\<close>.

  \<open>s.strip()\<close>: leading and trailing whitespace removed.
\<close>

definition is_space :: "char \<Rightarrow> bool" where
  "is_space ch = (ch \<in> set [CHR 0x09, CHR ''\<newline>'', CHR 0x0B, CHR 0x0C, CHR 0x0D,
                             CHR 0x1C, CHR 0x1D, CHR 0x1E, CHR 0x1F, CHR '' '',
                             CHR 0x85, CHR 0xA0])"

definition strip :: "string \<Rightarrow> string" where
  "strip s = rev (dropWhile is_space (rev (dropWhile is_space s)))"

section \<open>Configuration, registry and the outside world\<close>

text \<open>
  The module-level configuration of \<open>src/opt/wg-bot/wg_bot.py\<close>, read once from the
  environment. \<open>qrcode_available\<close> is whether \<open>import qrcode\<close> succeeded.
\<close>

record config =
  ADMIN_CHAT_ID :: "string option"
  SERVER_PUBLIC_IP :: string
  SERVER_WG_PORT :: int
  SERVER_PUBLIC_KEY :: string
  SERVER_INTERFACE :: string
  CLIENT_BASE :: string
  CLIENT_START :: int
  CLIENT_MAX :: int
  APPLY_PEER :: bool
  qrcode_available :: bool

text \<open>One row of the \<open>peers\<close> table.\<close>

record peer =
  rowid :: int
  name :: string
  private_key :: string
  public_key :: string
  address :: string
  created_at :: string

text \<open>
  What \<open>subprocess.run\<close> gives back: a completed process with its return code, standard
  output and standard error, or an exception raised while starting it (the text is
  \<open>str(e)\<close>).
\<close>

datatype run_result = Completed int string string | Raised string

text \<open>
  The answers of the outside world during one request: the outcome of every command the
  handler may start (by command line and standard input), and the value of
  \<open>CURRENT_TIMESTAMP\<close>.
\<close>

record env =
  run :: "string list \<Rightarrow> string \<Rightarrow> run_result"
  now :: string

text \<open>
  What happens to the registry and to the outside world, one event per effect: a command
  was run to its end (or could not be started), a row was inserted and committed, the rows
  of a name were deleted and the deletion committed.
\<close>

datatype event = Ran "string list" | Inserted string | Deleted string

text \<open>
  The state the handlers act on: the rows of the \<open>peers\<close> table in insertion order, the
  peer table of the WireGuard interface (public key, allowed IPs), the log of the
  command lines started so far, and the history: for every event so far, in order, the
  event with the registry and the interface as they were right after it. The last two
  are records of what happened; no handler reads them.
\<close>

record world =
  peers :: "peer list"
  iface :: "(string \<times> string) list"
  calls :: "string list list"
  history :: "(event \<times> peer list \<times> (string \<times> string) list) list"

definition initial :: world where
  "initial = \<lparr>peers = [], iface = [], calls = [], history = []\<rparr>"

datatype exn = RuntimeError string | OtherError string | IntegrityError

fun str_exn :: "exn \<Rightarrow> string" where
  "str_exn (RuntimeError m) = m"
| "str_exn (OtherError m) = m"
| "str_exn IntegrityError = ''UNIQUE constraint failed: peers.name''"

text \<open>
  The effect of a finished \<open>wg\<close> command on the interface's peer table, as the toolchain
  contract has it: a command either succeeds (exit status 0) and is applied whole, or
  fails and changes nothing. \<open>wg set IF peer K allowed-ips A\<close> adds or updates the entry
  of \<open>K\<close>; \<open>wg set IF peer K remove\<close> deletes it; nothing else touches the table.
\<close>

definition wg_effect :: "string list \<Rightarrow> run_result \<Rightarrow> (string \<times> string) list \<Rightarrow> (string \<times> string) list" where
  "wg_effect cmd r tbl =
     (case r of
        Raised m \<Rightarrow> tbl
      | Completed rc out err \<Rightarrow>
          if rc \<noteq> 0 then tbl
          else (case cmd of
                  [a, b, ifc, k, pub, d, ips] \<Rightarrow>
                    if [a, b, k, d] = [''wg'', ''set'', ''peer'', ''allowed-ips'']
                    then (pub, ips) # filter (\<lambda>x. fst x \<noteq> pub) tbl else tbl
                | [a, b, ifc, k, pub, d] \<Rightarrow>
                    if [a, b, k, d] = [''wg'', ''set'', ''peer'', ''remove'']
                    then filter (\<lambda>x. fst x \<noteq> pub) tbl else tbl
                | _ \<Rightarrow> tbl))"

definition subprocess_run :: "env \<Rightarrow> string list \<Rightarrow> string \<Rightarrow> world \<Rightarrow> run_result \<times> world" where
  "subprocess_run e cmd inp w =
     (let r = run e cmd inp
      in (r, w\<lparr>iface := wg_effect cmd r (iface w), calls := calls w @ [cmd],
               history := history w @ [(Ran cmd, peers w, wg_effect cmd r (iface w))]\<rparr>))"

section \<open>Utilities of \<open>src/opt/wg-bot/wg_bot.py\<close>\<close>

definition gen_keypair :: "env \<Rightarrow> world \<Rightarrow> (exn + string \<times> string) \<times> world" where
  "gen_keypair e w =
     (case subprocess_run e [''wg'', ''genkey''] [] w of
        (Raised m, w1) \<Rightarrow> (Inl (OtherError m), w1)
      | (Completed rc out err, w1) \<Rightarrow>
          if rc \<noteq> 0 then (Inl (RuntimeError (''wg genkey failed: '' @ err)), w1)
          else (let priv = strip out
                in (case subprocess_run e [''wg'', ''pubkey''] priv w1 of
                      (Raised m, w2) \<Rightarrow> (Inl (OtherError m), w2)
                    | (Completed rc2 out2 err2, w2) \<Rightarrow>
                        if rc2 \<noteq> 0 then (Inl (RuntimeError (''wg pubkey failed: '' @ err2)), w2)
                        else (Inr (priv, strip out2), w2))))"

text \<open>
  The loop of \<open>next_free_ip\<close>: \<open>for i in range(CLIENT_START, CLIENT_MAX + 1)\<close>, returning at
  the first candidate that is not in \<open>used\<close> and raising after the last one.
\<close>

function scan_pool :: "config \<Rightarrow> string set \<Rightarrow> int \<Rightarrow> exn + string" where
  "scan_pool c used i =
     (if CLIENT_MAX c < i then Inl (RuntimeError ''No free IPs left in pool'')
      else if CLIENT_BASE c @ str_int i \<notin> used then Inr (CLIENT_BASE c @ str_int i)
      else scan_pool c used (i + 1))"
  by pat_completeness auto
termination
  by (relation "measure (\<lambda>(c, used, i). nat (CLIENT_MAX c + 1 - i))") auto

declare scan_pool.simps [simp del]

definition next_free_ip :: "config \<Rightarrow> world \<Rightarrow> exn + string" where
  "next_free_ip c w = scan_pool c (set (map address (peers w))) (CLIENT_START c)"

definition make_conf :: "config \<Rightarrow> string \<Rightarrow> string \<Rightarrow> string" where
  "make_conf c client_priv client_ip =
     ''[Interface]\<newline>PrivateKey = '' @ client_priv @
     ''\<newline>Address = '' @ client_ip @
     ''/32\<newline>DNS = 1.1.1.1\<newline>\<newline>[Peer]\<newline>PublicKey = '' @ SERVER_PUBLIC_KEY c @
     ''\<newline>Endpoint = '' @ SERVER_PUBLIC_IP c @ '':'' @ str_int (SERVER_WG_PORT c) @
     ''\<newline>AllowedIPs = 0.0.0.0/0, ::/0\<newline>PersistentKeepalive = 25\<newline>''"

definition apply_peer_to_interface ::
    "config \<Rightarrow> env \<Rightarrow> string \<Rightarrow> string \<Rightarrow> world \<Rightarrow> (exn + string option) \<times> world" where
  "apply_peer_to_interface c e client_pub client_ip w =
     (if \<not> APPLY_PEER c then (Inr None, w)
      else (case subprocess_run e
                   [''wg'', ''set'', SERVER_INTERFACE c, ''peer'', client_pub,
                    ''allowed-ips'', client_ip @ ''/32''] [] w of
              (Raised m, w1) \<Rightarrow> (Inl (OtherError m), w1)
            | (Completed rc out err, w1) \<Rightarrow>
                if rc \<noteq> 0 then (Inl (RuntimeError (''wg set failed: '' @ err)), w1)
                else (Inr (Some out), w1)))"

section \<open>The registry statements\<close>

text \<open>
  \<open>INSERT INTO peers(name, private_key, public_key, address)\<close>: \<open>name\<close> is \<open>UNIQUE\<close>, so
  the statement raises \<open>sqlite3.IntegrityError\<close> when a row of that name exists. The
  integer primary key of the new row is one more than the largest in the table, and
  \<open>created_at\<close> takes its default, the current timestamp.
\<close>

definition next_rowid :: "peer list \<Rightarrow> int" where
  "next_rowid ps = foldr max (map rowid ps) 0 + 1"

definition insert_peer ::
    "string \<Rightarrow> string \<Rightarrow> string \<Rightarrow> string \<Rightarrow> string \<Rightarrow> world \<Rightarrow> (exn + unit) \<times> world" where
  "insert_peer nm priv pub ip ts w =
     (if nm \<in> set (map name (peers w)) then (Inl IntegrityError, w)
      else (Inr (),
            w\<lparr>peers := peers w @
                 [\<lparr>rowid = next_rowid (peers w), name = nm, private_key = priv,
                   public_key = pub, address = ip, created_at = ts\<rparr>],
              history := history w @
                 [(Inserted nm,
                   peers w @
                     [\<lparr>rowid = next_rowid (peers w), name = nm, private_key = priv,
                       public_key = pub, address = ip, created_at = ts\<rparr>],
                   iface w)]\<rparr>))"

text \<open>\<open>SELECT ... FROM peers WHERE name=?\<close> followed by \<open>fetchone()\<close>.\<close>

definition select_by_name :: "string \<Rightarrow> world \<Rightarrow> peer option" where
  "select_by_name nm w = find (\<lambda>p. name p = nm) (peers w)"

text \<open>\<open>DELETE FROM peers WHERE name=?\<close>.\<close>

definition delete_by_name :: "string \<Rightarrow> world \<Rightarrow> world" where
  "delete_by_name nm w =
     w\<lparr>peers := filter (\<lambda>p. name p \<noteq> nm) (peers w),
       history := history w @ [(Deleted nm, filter (\<lambda>p. name p \<noteq> nm) (peers w), iface w)]\<rparr>"

section \<open>The Telegram handlers\<close>

text \<open>
  What a handler sends back. The bot's message texts are Russian; each constructor stands
  for one message template of the source and carries the values interpolated into it:
  \<^item> \<open>Usage u\<close>: the usage line of a command called without arguments;
  \<^item> \<open>ErrorReply m\<close>: the error line carrying \<open>str(e)\<close> of a failed key generation or
    allocation in \<open>newclient\<close>;
  \<^item> \<open>NameExists\<close>: "a client with this name already exists";
  \<^item> \<open>ApplyFailed m\<close>: "could not apply to the interface", with \<open>str(e)\<close>;
  \<^item> \<open>Document filename text caption\<close>: \<open>reply_document\<close>;
  \<^item> \<open>Photo filename text caption\<close>: \<open>reply_photo\<close> of the QR code made from \<open>text\<close>;
  \<^item> \<open>AdminOnlyList\<close>, \<open>AdminOnlyRevoke\<close>: "only the administrator may ...";
  \<^item> \<open>NoClients\<close>: "no clients"; \<open>ClientList rows\<close>: the list header and one line per row;
  \<^item> \<open>NotFound\<close>: "client not found";
  \<^item> \<open>RemoveFailed m\<close>: "could not remove the peer", with \<open>str(e)\<close>;
  \<^item> \<open>Revoked name ip\<close>: "client name (ip) deleted".
\<close>

datatype reply =
    Usage string
  | ErrorReply string
  | NameExists
  | ApplyFailed string
  | Document string string "string option"
  | Photo string string "string option"
  | AdminOnlyList
  | AdminOnlyRevoke
  | NoClients
  | ClientList "(string \<times> string \<times> string) list"
  | NotFound
  | RemoveFailed string
  | Revoked string string

text \<open>
  \<open>ADMIN_CHAT_ID and str(update.effective_chat.id) != str(ADMIN_CHAT_ID)\<close>: the
  administrator check of \<open>list_clients\<close> and \<open>revoke\<close>. An unset or empty \<open>ADMIN_CHAT_ID\<close> admits everybody.
\<close>

definition not_admin :: "config \<Rightarrow> int \<Rightarrow> bool" where
  "not_admin c chat =
     (case ADMIN_CHAT_ID c of None \<Rightarrow> False | Some a \<Rightarrow> a \<noteq> [] \<and> str_int chat \<noteq> a)"

text \<open>
  Every handler takes the configuration, the answers of the outside world, the chat
  identity of the update, the command arguments \<open>context.args\<close> and the current state,
  and returns the replies it sent and the new state.
\<close>

definition newclient :: "config \<Rightarrow> env \<Rightarrow> int \<Rightarrow> string list \<Rightarrow> world \<Rightarrow> reply list \<times> world" where
  "newclient c e chat args w =
     (case args of
        [] \<Rightarrow> ([Usage ''/newclient <client_name>''], w)
      | nm # _ \<Rightarrow>
          (case gen_keypair e w of
             (Inl ex, w1) \<Rightarrow> ([ErrorReply (str_exn ex)], w1)
           | (Inr (priv, pub), w1) \<Rightarrow>
               (case next_free_ip c w1 of
                  Inl ex \<Rightarrow> ([ErrorReply (str_exn ex)], w1)
                | Inr ip \<Rightarrow>
                    (case insert_peer nm priv pub ip (now e) w1 of
                       (Inl ex, w2) \<Rightarrow> ([NameExists], w2)
                     | (Inr u, w2) \<Rightarrow>
                         (case apply_peer_to_interface c e pub ip w2 of
                            (r, w3) \<Rightarrow>
                              ((case r of Inl ex \<Rightarrow> [ApplyFailed (str_exn ex)] | Inr out \<Rightarrow> []) @
                               [Document (nm @ ''.conf'') (make_conf c priv ip)
                                  (Some (''Config '' @ nm @ '' ('' @ ip @ '')''))] @
                               (if qrcode_available c
                                then [Photo (nm @ ''.png'') (make_conf c priv ip) (Some ''QR'')]
                                else []),
                               w3))))))"

definition list_clients :: "config \<Rightarrow> int \<Rightarrow> world \<Rightarrow> reply list \<times> world" where
  "list_clients c chat w =
     (if not_admin c chat then ([AdminOnlyList], w)
      else (let rows = sort_key rowid (peers w)
            in if rows = [] then ([NoClients], w)
               else ([ClientList (map (\<lambda>p. (name p, address p, created_at p)) rows)], w)))"

definition get_config :: "config \<Rightarrow> int \<Rightarrow> string list \<Rightarrow> world \<Rightarrow> reply list \<times> world" where
  "get_config c chat args w =
     (case args of
        [] \<Rightarrow> ([Usage ''/config <client_name>''], w)
      | nm # _ \<Rightarrow>
          (case select_by_name nm w of
             None \<Rightarrow> ([NotFound], w)
           | Some row \<Rightarrow>
               ([Document (nm @ ''.conf'') (make_conf c (private_key row) (address row)) None] @
                (if qrcode_available c
                 then [Photo (nm @ ''.png'') (make_conf c (private_key row) (address row)) None]
                 else []),
                w)))"

text \<open>
  In \<open>revoke\<close> the removal command is started with a bare \<open>subprocess.run\<close>: only an
  exception raised while starting it reaches the \<open>except\<close> branch; the return code of a
  completed command is not looked at.
\<close>

definition revoke :: "config \<Rightarrow> env \<Rightarrow> int \<Rightarrow> string list \<Rightarrow> world \<Rightarrow> reply list \<times> world" where
  "revoke c e chat args w =
     (case args of
        [] \<Rightarrow> ([Usage ''/revoke <client_name>''], w)
      | nm # _ \<Rightarrow>
          if not_admin c chat then ([AdminOnlyRevoke], w)
          else (case select_by_name nm w of
                  None \<Rightarrow> ([NotFound], w)
                | Some row \<Rightarrow>
                    (case (if APPLY_PEER c
                           then (case subprocess_run e
                                        [''wg'', ''set'', SERVER_INTERFACE c, ''peer'',
                                         public_key row, ''remove''] [] w of
                                   (Raised m, w1) \<Rightarrow> ([RemoveFailed m], w1)
                                 | (Completed rc out err, w1) \<Rightarrow> ([], w1))
                           else ([], w)) of
                       (rs, w1) \<Rightarrow>
                         (rs @ [Revoked nm (address row)], delete_by_name nm w1))))"

text \<open>A request to the bot, and the serial processing of a sequence of requests.\<close>

datatype request =
    NewClient env int "string list"
  | ListClients int
  | GetConfig int "string list"
  | Revoke env int "string list"

fun handle :: "config \<Rightarrow> request \<Rightarrow> world \<Rightarrow> reply list \<times> world" where
  "handle c (NewClient e chat args) w = newclient c e chat args w"
| "handle c (ListClients chat) w = list_clients c chat w"
| "handle c (GetConfig chat args) w = get_config c chat args w"
| "handle c (Revoke e chat args) w = revoke c e chat args w"

fun serve :: "config \<Rightarrow> request list \<Rightarrow> world \<Rightarrow> world" where
  "serve c [] w = w"
| "serve c (r # rs) w = serve c rs (snd (handle c r w))"

section \<open>The command dispatcher in front of the handlers\<close>

text \<open>
  The handlers never see the message text: python-telegram-bot's \<open>CommandHandler\<close> fills
  \<open>context.args\<close> with \<open>message.text.split()[1:]\<close>, the whitespace-separated words after
  the command. \<open>py_split\<close> is Python's \<open>str.split()\<close> without arguments: runs of
  whitespace separate the words, and no word is empty.
\<close>

fun split_acc :: "string \<Rightarrow> string \<Rightarrow> string list" where
  "split_acc cur [] = (if cur = [] then [] else [cur])"
| "split_acc cur (ch # s) =
     (if is_space ch then (if cur = [] then split_acc [] s else cur # split_acc [] s)
      else split_acc (cur @ [ch]) s)"

definition py_split :: "string \<Rightarrow> string list" where
  "py_split s = split_acc [] s"

definition command_args :: "string \<Rightarrow> string list" where
  "command_args text = drop 1 (py_split text)"

text \<open>The client name a request carries: \<open>context.args[0]\<close>, empty when there is none.\<close>

definition requested_name :: "string list \<Rightarrow> string" where
  "requested_name args = (case args of [] \<Rightarrow> [] | nm # rest \<Rightarrow> nm)"

section \<open>Properties of states and requests\<close>

text \<open>
  The registry invariant: no address occurs in two rows, and every address is the base
  followed by the decimal rendering of a number of the inclusive pool range.
\<close>

definition in_pool :: "config \<Rightarrow> string \<Rightarrow> bool" where
  "in_pool c a = (\<exists>i. CLIENT_START c \<le> i \<and> i \<le> CLIENT_MAX c \<and> a = CLIENT_BASE c @ str_int i)"

definition registry_ok :: "config \<Rightarrow> world \<Rightarrow> bool" where
  "registry_ok c w =
     (distinct (map address (peers w)) \<and> (\<forall>p \<in> set (peers w). in_pool c (address p)))"

text \<open>The interface holds entries only for public keys of registry rows.\<close>

definition iface_within_registry :: "world \<Rightarrow> bool" where
  "iface_within_registry w = (set (map fst (iface w)) \<subseteq> set (map public_key (peers w)))"

text \<open>The same of a point of the history: the interface as it was then, the registry as it was then.\<close>

definition point_within_registry :: "event \<times> peer list \<times> (string \<times> string) list \<Rightarrow> bool" where
  "point_within_registry pt = (set (map fst (snd (snd pt))) \<subseteq> set (map public_key (fst (snd pt))))"

text \<open>
  The state is consistent with the configuration: names are unique in the registry, the
  interface is within the registry, and with live interface mutation disabled the
  interface has no entry (the bot never touched it).
\<close>

definition consistent :: "config \<Rightarrow> world \<Rightarrow> bool" where
  "consistent c w =
     (distinct (map name (peers w)) \<and> iface_within_registry w \<and>
      (\<not> APPLY_PEER c \<longrightarrow> iface w = []))"

text \<open>The events that happened between the state \<open>w\<close> and the later state \<open>w'\<close>.\<close>

definition events_since :: "world \<Rightarrow> world \<Rightarrow> event list" where
  "events_since w w' = map fst (drop (length (history w)) (history w'))"

text \<open>Key generation succeeds on the toolchain answers \<open>e\<close>.\<close>

definition keygen_ok :: "env \<Rightarrow> bool" where
  "keygen_ok e = (case fst (gen_keypair e initial) of Inl ex \<Rightarrow> False | Inr kp \<Rightarrow> True)"

text \<open>
  The removal command that \<open>revoke\<close> starts in the state \<open>w\<close>, if it starts one: it does
  when the request has a name, the caller passes the administrator check, a row of that
  name exists and live interface mutation is enabled.
\<close>

definition removal_command :: "config \<Rightarrow> int \<Rightarrow> string list \<Rightarrow> world \<Rightarrow> string list option" where
  "removal_command c chat args w =
     (case args of
        [] \<Rightarrow> None
      | nm # rest \<Rightarrow>
          if not_admin c chat then None
          else (case select_by_name nm w of
                  None \<Rightarrow> None
                | Some row \<Rightarrow>
                    if APPLY_PEER c
                    then Some [''wg'', ''set'', SERVER_INTERFACE c, ''peer'', public_key row, ''remove'']
                    else None))"

text \<open>A command that completed with exit status 0.\<close>

definition exit_ok :: "run_result \<Rightarrow> bool" where
  "exit_ok r = (case r of Completed rc out err \<Rightarrow> rc = 0 | Raised m \<Rightarrow> False)"

text \<open>
  Every removal command that is started while the requests \<open>rs\<close> are processed one after
  the other from the state \<open>w\<close> exits with status 0. A request that starts no removal
  command asks nothing.
\<close>

fun removal_succeeds :: "config \<Rightarrow> request \<Rightarrow> world \<Rightarrow> bool" where
  "removal_succeeds c (Revoke e chat args) w =
     (case removal_command c chat args w of None \<Rightarrow> True | Some cmd \<Rightarrow> exit_ok (run e cmd []))"
| "removal_succeeds c r w = True"

fun removals_succeed :: "config \<Rightarrow> request list \<Rightarrow> world \<Rightarrow> bool" where
  "removals_succeed c [] w = True"
| "removals_succeed c (r # rs) w =
     (removal_succeeds c r w \<and> removals_succeed c rs (snd (handle c r w)))"

section \<open>The profile document as the specification words it\<close>

text \<open>
  A profile is a list of sections; a section is a title and a list of key/value fields.
  A section is rendered as its bracketed title followed by one \<open>Key = Value\<close> line per
  field, every line ended by a newline; sections are separated by an empty line.
\<close>

definition render_field :: "string \<times> string \<Rightarrow> string" where
  "render_field kv = fst kv @ '' = '' @ snd kv"

definition render_section :: "string \<times> (string \<times> string) list \<Rightarrow> string" where
  "render_section sec =
     concat (map (\<lambda>l. l @ ''\<newline>'') ((''['' @ fst sec @ '']'') # map render_field (snd sec)))"

fun render_sections :: "(string \<times> (string \<times> string) list) list \<Rightarrow> string" where
  "render_sections [] = []"
| "render_sections [sec] = render_section sec"
| "render_sections (sec # secs) = render_section sec @ ''\<newline>'' @ render_sections secs"

definition profile_sections :: "config \<Rightarrow> string \<Rightarrow> string \<Rightarrow> (string \<times> (string \<times> string) list) list" where
  "profile_sections c priv addr =
     [(''Interface'',
         [(''PrivateKey'', priv), (''Address'', addr @ ''/32''), (''DNS'', ''1.1.1.1'')]),
      (''Peer'',
         [(''PublicKey'', SERVER_PUBLIC_KEY c),
          (''Endpoint'', SERVER_PUBLIC_IP c @ '':'' @ str_int (SERVER_WG_PORT c)),
          (''AllowedIPs'', ''0.0.0.0/0, ::/0''),
          (''PersistentKeepalive'', ''25'')])]"

section \<open>The renderer of the file-based variant, \<open>src/wg_bot.py\<close>\<close>

text \<open>
  The second bot keeps no registry; its \<open>build_client_config(name, private_key)\<close> reads the
  server parameters from the environment as strings (an unset variable is \<open>None\<close> and is
  printed as such by the f-string) and writes a fixed address.
\<close>

definition str_opt :: "string option \<Rightarrow> string" where
  "str_opt v = (case v of None \<Rightarrow> ''None'' | Some s \<Rightarrow> s)"

definition build_client_config ::
    "string option \<Rightarrow> string option \<Rightarrow> string \<Rightarrow> string \<Rightarrow> string \<Rightarrow> string" where
  "build_client_config server_public_key server_public_ip server_wg_port nm priv =
     ''\<newline>[Interface]\<newline>PrivateKey = '' @ priv @
     ''\<newline>Address = 10.0.0.2/32\<newline>DNS = 1.1.1.1\<newline>\<newline>[Peer]\<newline>PublicKey = '' @ str_opt server_public_key @
     ''\<newline>Endpoint = '' @ str_opt server_public_ip @ '':'' @ server_wg_port @
     ''\<newline>AllowedIPs = 0.0.0.0/0\<newline>PersistentKeepalive = 25\<newline>''"

section \<open>Sample configurations and toolchain answers\<close>

definition sample_config :: config where
  "sample_config =
     \<lparr>ADMIN_CHAT_ID = Some ''1000'', SERVER_PUBLIC_IP = ''203.0.113.7'', SERVER_WG_PORT = 51820,
      SERVER_PUBLIC_KEY = ''SERVERPUB='', SERVER_INTERFACE = ''wg0'', CLIENT_BASE = ''10.0.0.'',
      CLIENT_START = 2, CLIENT_MAX = 3, APPLY_PEER = True, qrcode_available = False\<rparr>"

text \<open>A toolchain on which every command exits with status 0; the key pair is built from \<open>k\<close>.\<close>

definition tool_ok :: "string \<Rightarrow> env" where
  "tool_ok k =
     \<lparr>run = (\<lambda>cmd inp.
              if cmd = [''wg'', ''genkey''] then Completed 0 (''priv-'' @ k @ ''\<newline>'') []
              else if cmd = [''wg'', ''pubkey''] then Completed 0 (''pub-'' @ k @ ''\<newline>'') []
              else Completed 0 [] []),
      now = ''2024-01-01 00:00:00''\<rparr>"

text \<open>A toolchain on which key generation works and every \<open>wg set\<close> exits with status 1.\<close>

definition tool_set_fails :: "string \<Rightarrow> env" where
  "tool_set_fails k =
     \<lparr>run = (\<lambda>cmd inp.
              if cmd = [''wg'', ''genkey''] then Completed 0 (''priv-'' @ k @ ''\<newline>'') []
              else if cmd = [''wg'', ''pubkey''] then Completed 0 (''pub-'' @ k @ ''\<newline>'') []
              else Completed 1 [] ''Unable to modify interface: No such device''),
      now = ''2024-01-01 00:00:00''\<rparr>"

text \<open>The states after \<open>/newclient alice\<close> and then \<open>/newclient bob\<close> on the sample configuration.\<close>

definition after_alice :: world where
  "after_alice = snd (newclient sample_config (tool_ok ''a'') 1 [''alice''] initial)"

definition after_bob :: world where
  "after_bob = snd (newclient sample_config (tool_ok ''b'') 2 [''bob''] after_alice)"

section \<open>Basic facts about the primitives\<close>

lemma wg_effect_short [simp]: "wg_effect [a, b] r tbl = tbl"
  by (simp add: wg_effect_def split: run_result.splits)

lemma subprocess_run_fst [simp]: "fst (subprocess_run e cmd inp w) = run e cmd inp"
  by (simp add: subprocess_run_def Let_def)

lemma subprocess_run_peers [simp]: "peers (snd (subprocess_run e cmd inp w)) = peers w"
  by (simp add: subprocess_run_def Let_def)

lemma subprocess_run_iface [simp]:
  "iface (snd (subprocess_run e cmd inp w)) = wg_effect cmd (run e cmd inp) (iface w)"
  by (simp add: subprocess_run_def Let_def)

lemma subprocess_run_calls [simp]:
  "calls (snd (subprocess_run e cmd inp w)) = calls w @ [cmd]"
  by (simp add: subprocess_run_def Let_def)

lemma gen_keypair_peers [simp]: "peers (snd (gen_keypair e w)) = peers w"
  by (simp add: gen_keypair_def subprocess_run_def Let_def split: run_result.splits prod.splits)

lemma gen_keypair_iface [simp]: "iface (snd (gen_keypair e w)) = iface w"
  by (simp add: gen_keypair_def subprocess_run_def Let_def split: run_result.splits prod.splits)

lemma split_acc_no_empty: "[] \<notin> set (split_acc cur s)"
  by (induction s arbitrary: cur) auto

lemma command_args_no_empty: "[] \<notin> set (command_args msg)"
  using split_acc_no_empty [of "[]" msg]
  by (auto simp: command_args_def py_split_def dest: in_set_dropD)

section \<open>The allocator and the registry invariant\<close>

lemma scan_pool_Inr:
  "scan_pool c used i = Inr ip \<Longrightarrow>
     \<exists>j. i \<le> j \<and> j \<le> CLIENT_MAX c \<and> ip = CLIENT_BASE c @ str_int j \<and> ip \<notin> used \<and>
         (\<forall>k. i \<le> k \<and> k < j \<longrightarrow> CLIENT_BASE c @ str_int k \<in> used)"
proof (induction c used i rule: scan_pool.induct)
  case (1 c used i)
  show ?case
  proof (cases "CLIENT_MAX c < i")
    case True
    with "1.prems" show ?thesis by (simp add: scan_pool.simps)
  next
    case inrange: False
    show ?thesis
    proof (cases "CLIENT_BASE c @ str_int i \<in> used")
      case False
      with inrange "1.prems" have "ip = CLIENT_BASE c @ str_int i"
        by (simp add: scan_pool.simps)
      with inrange False show ?thesis by (intro exI[of _ i]) auto
    next
      case True
      with inrange "1.prems" have "scan_pool c used (i + 1) = Inr ip"
        by (simp add: scan_pool.simps)
      with "1.IH" inrange True obtain j where j: "i + 1 \<le> j" "j \<le> CLIENT_MAX c"
        "ip = CLIENT_BASE c @ str_int j" "ip \<notin> used"
        "\<forall>k. i + 1 \<le> k \<and> k < j \<longrightarrow> CLIENT_BASE c @ str_int k \<in> used"
        by auto
      have "\<forall>k. i \<le> k \<and> k < j \<longrightarrow> CLIENT_BASE c @ str_int k \<in> used"
      proof (intro allI impI)
        fix k assume k: "i \<le> k \<and> k < j"
        show "CLIENT_BASE c @ str_int k \<in> used"
        proof (cases "k = i")
          case True with \<open>CLIENT_BASE c @ str_int i \<in> used\<close> show ?thesis by simp
        next
          case False with k j(5) show ?thesis by auto
        qed
      qed
      with j show ?thesis by (intro exI[of _ j]) auto
    qed
  qed
qed

lemma scan_pool_Inl:
  "scan_pool c used i = Inl ex \<Longrightarrow>
     ex = RuntimeError ''No free IPs left in pool'' \<and>
     (\<forall>k. i \<le> k \<and> k \<le> CLIENT_MAX c \<longrightarrow> CLIENT_BASE c @ str_int k \<in> used)"
proof (induction c used i rule: scan_pool.induct)
  case (1 c used i)
  show ?case
  proof (cases "CLIENT_MAX c < i")
    case True
    with "1.prems" show ?thesis by (auto simp: scan_pool.simps)
  next
    case inrange: False
    show ?thesis
    proof (cases "CLIENT_BASE c @ str_int i \<in> used")
      case False
      with inrange "1.prems" show ?thesis by (simp add: scan_pool.simps)
    next
      case True
      with inrange "1.prems" have "scan_pool c used (i + 1) = Inl ex"
        by (simp add: scan_pool.simps)
      with "1.IH" inrange True have ih: "ex = RuntimeError ''No free IPs left in pool''"
        "\<forall>k. i + 1 \<le> k \<and> k \<le> CLIENT_MAX c \<longrightarrow> CLIENT_BASE c @ str_int k \<in> used"
        by auto
      have "\<forall>k. i \<le> k \<and> k \<le> CLIENT_MAX c \<longrightarrow> CLIENT_BASE c @ str_int k \<in> used"
      proof (intro allI impI)
        fix k assume k: "i \<le> k \<and> k \<le> CLIENT_MAX c"
        show "CLIENT_BASE c @ str_int k \<in> used"
        proof (cases "k = i")
          case True with \<open>CLIENT_BASE c @ str_int i \<in> used\<close> show ?thesis by simp
        next
          case False with k ih(2) show ?thesis by auto
        qed
      qed
      with ih(1) show ?thesis by simp
    qed
  qed
qed

lemma next_free_ip_peers: "peers w1 = peers w \<Longrightarrow> next_free_ip c w1 = next_free_ip c w"
  by (simp add: next_free_ip_def)

lemma next_free_ip_Inr:
  "next_free_ip c w = Inr ip \<Longrightarrow> ip \<notin> set (map address (peers w)) \<and> in_pool c ip"
  unfolding next_free_ip_def in_pool_def by (drule scan_pool_Inr) blast

lemma gen_keypair_fst: "fst (gen_keypair e w) = fst (gen_keypair e w')"
  by (simp add: gen_keypair_def subprocess_run_def Let_def split: run_result.splits)

lemma insert_peer_peers:
  "peers (snd (insert_peer nm priv pub ip ts w)) =
     (if nm \<in> set (map name (peers w)) then peers w
      else peers w @ [\<lparr>rowid = next_rowid (peers w), name = nm, private_key = priv,
                        public_key = pub, address = ip, created_at = ts\<rparr>])"
  by (simp add: insert_peer_def)

lemma apply_peer_peers [simp]: "peers (snd (apply_peer_to_interface c e pub ip w)) = peers w"
  by (simp add: apply_peer_to_interface_def subprocess_run_def Let_def split: run_result.splits)

text \<open>What newclient does to the table: nothing, or one appended row with a free pool address.\<close>

lemma newclient_peers:
  "peers (snd (newclient c e chat args w)) = peers w \<or>
   (\<exists>row. peers (snd (newclient c e chat args w)) = peers w @ [row] \<and>
          next_free_ip c w = Inr (address row) \<and> name row = requested_name args \<and>
          name row \<notin> set (map name (peers w)))"
proof (cases args)
  case Nil
  then show ?thesis by (simp add: newclient_def)
next
  case (Cons nm rest)
  obtain r w1 where g: "gen_keypair e w = (r, w1)" by (cases "gen_keypair e w")
  then have p1: "peers w1 = peers w" using gen_keypair_peers [of e w] by simp
  show ?thesis
  proof (cases r)
    case (Inl ex)
    with Cons g p1 show ?thesis by (simp add: newclient_def)
  next
    case (Inr kp)
    obtain priv pub where kp: "kp = (priv, pub)" by (cases kp)
    show ?thesis
    proof (cases "next_free_ip c w1")
      case (Inl ex)
      with Cons g p1 Inr kp show ?thesis by (simp add: newclient_def)
    next
      case ip: (Inr ip)
      then have ipw: "next_free_ip c w = Inr ip" using next_free_ip_peers [OF p1] by simp
      show ?thesis
      proof (cases "nm \<in> set (map name (peers w))")
        case True
        with Cons g p1 Inr kp ip show ?thesis
          by (simp add: newclient_def insert_peer_def)
      next
        case False
        define row where "row = \<lparr>rowid = next_rowid (peers w), name = nm, private_key = priv,
                        public_key = pub, address = ip, created_at = now e\<rparr>"
        define w2 where "w2 = w1\<lparr>peers := peers w @ [row],
                            history := history w1 @ [(Inserted nm, peers w @ [row], iface w1)]\<rparr>"
        have ins: "insert_peer nm priv pub ip (now e) w1 = (Inr (), w2)"
          using False p1 by (simp add: insert_peer_def w2_def row_def)
        obtain r3 w3 where a: "apply_peer_to_interface c e pub ip w2 = (r3, w3)"
          by (cases "apply_peer_to_interface c e pub ip w2")
        have "peers (snd (apply_peer_to_interface c e pub ip w2)) = peers w2"
          by (rule apply_peer_peers)
        then have p3: "peers w3 = peers w @ [row]"
          unfolding a by (simp add: w2_def)
        have "snd (newclient c e chat args w) = w3"
          using Cons g Inr kp ip ins a by (simp add: newclient_def)
        with p3 ipw False Cons show ?thesis
          by (auto simp: row_def requested_name_def)
      qed
    qed
  qed
qed

lemma revoke_peers:
  "peers (snd (revoke c e chat args w)) = peers w \<or>
   peers (snd (revoke c e chat args w)) = filter (\<lambda>p. name p \<noteq> requested_name args) (peers w)"
  by (auto simp: revoke_def delete_by_name_def requested_name_def subprocess_run_def Let_def
           split: list.splits option.splits run_result.splits prod.splits)

lemma list_clients_snd [simp]: "snd (list_clients c chat w) = w"
  by (simp add: list_clients_def Let_def)

lemma get_config_snd [simp]: "snd (get_config c chat args w) = w"
  by (simp add: get_config_def split: list.splits option.splits)

lemma registry_ok_append:
  "registry_ok c w \<Longrightarrow> peers w' = peers w @ [row] \<Longrightarrow> next_free_ip c w = Inr (address row) \<Longrightarrow>
   registry_ok c w'"
  using next_free_ip_Inr [of c w "address row"] by (auto simp: registry_ok_def)

lemma registry_ok_filter:
  "registry_ok c w \<Longrightarrow> peers w' = filter P (peers w) \<Longrightarrow> registry_ok c w'"
  by (auto simp: registry_ok_def distinct_map_filter)

lemma registry_ok_same: "registry_ok c w \<Longrightarrow> peers w' = peers w \<Longrightarrow> registry_ok c w'"
  by (simp add: registry_ok_def)

lemma handle_registry_ok: "registry_ok c w \<Longrightarrow> registry_ok c (snd (handle c r w))"
proof (cases r)
  case (NewClient e chat args)
  assume ok: "registry_ok c w"
  from newclient_peers [of c e chat args w] NewClient ok show ?thesis
    by (auto intro: registry_ok_same registry_ok_append)
next
  case (Revoke e chat args)
  assume ok: "registry_ok c w"
  from revoke_peers [of c e chat args w] Revoke ok show ?thesis
    by (auto intro: registry_ok_same registry_ok_filter)
qed simp_all

lemma serve_registry_ok: "registry_ok c w \<Longrightarrow> registry_ok c (serve c rs w)"
  by (induction rs arbitrary: w) (simp_all add: handle_registry_ok)

lemma initial_registry_ok: "registry_ok c initial"
  by (simp add: registry_ok_def initial_def)

section \<open>The outcomes of \<open>newclient\<close>\<close>

lemma apply_peer_fst:
  "fst (apply_peer_to_interface c e pub ip w) = fst (apply_peer_to_interface c e pub ip w')"
  by (simp add: apply_peer_to_interface_def subprocess_run_def Let_def split: run_result.splits)

lemma apply_peer_iface:
  "iface (snd (apply_peer_to_interface c e pub ip w)) =
     (if APPLY_PEER c
      then wg_effect [''wg'', ''set'', SERVER_INTERFACE c, ''peer'', pub, ''allowed-ips'', ip @ ''/32'']
             (run e [''wg'', ''set'', SERVER_INTERFACE c, ''peer'', pub, ''allowed-ips'', ip @ ''/32''] [])
             (iface w)
      else iface w)"
  by (simp add: apply_peer_to_interface_def subprocess_run_def Let_def split: run_result.splits)

lemma keygen_okD: "keygen_ok e \<Longrightarrow> \<exists>priv pub. \<forall>w. fst (gen_keypair e w) = Inr (priv, pub)"
proof -
  assume "keygen_ok e"
  then obtain priv pub where "fst (gen_keypair e initial) = Inr (priv, pub)"
    by (auto simp: keygen_ok_def split: sum.splits)
  then have "\<forall>w. fst (gen_keypair e w) = Inr (priv, pub)"
    using gen_keypair_fst [of e _ initial] by simp
  then show ?thesis by blast
qed

text \<open>The three ways a request with a name can end before the insert, and the full run.\<close>

lemma newclient_keygen_failed:
  assumes "fst (gen_keypair e w) = Inl ex"
  shows "fst (newclient c e chat (nm # rest) w) = [ErrorReply (str_exn ex)]"
    and "peers (snd (newclient c e chat (nm # rest) w)) = peers w"
    and "iface (snd (newclient c e chat (nm # rest) w)) = iface w"
proof -
  obtain w1 where g: "gen_keypair e w = (Inl ex, w1)"
    using assms by (cases "gen_keypair e w") simp
  have "peers w1 = peers w" "iface w1 = iface w"
    using gen_keypair_peers [of e w] gen_keypair_iface [of e w] g by simp_all
  with g show "fst (newclient c e chat (nm # rest) w) = [ErrorReply (str_exn ex)]"
    and "peers (snd (newclient c e chat (nm # rest) w)) = peers w"
    and "iface (snd (newclient c e chat (nm # rest) w)) = iface w"
    by (simp_all add: newclient_def)
qed

lemma newclient_pool_exhausted:
  assumes "fst (gen_keypair e w) = Inr (priv, pub)" and "next_free_ip c w = Inl ex"
  shows "fst (newclient c e chat (nm # rest) w) = [ErrorReply (str_exn ex)]"
    and "peers (snd (newclient c e chat (nm # rest) w)) = peers w"
    and "iface (snd (newclient c e chat (nm # rest) w)) = iface w"
proof -
  obtain w1 where g: "gen_keypair e w = (Inr (priv, pub), w1)"
    using assms(1) by (cases "gen_keypair e w") simp
  have p: "peers w1 = peers w" "iface w1 = iface w"
    using gen_keypair_peers [of e w] gen_keypair_iface [of e w] g by simp_all
  then have "next_free_ip c w1 = Inl ex" using assms(2) by (simp add: next_free_ip_def)
  with g p show "fst (newclient c e chat (nm # rest) w) = [ErrorReply (str_exn ex)]"
    and "peers (snd (newclient c e chat (nm # rest) w)) = peers w"
    and "iface (snd (newclient c e chat (nm # rest) w)) = iface w"
    by (simp_all add: newclient_def)
qed

lemma newclient_name_taken:
  assumes "fst (gen_keypair e w) = Inr (priv, pub)" and "next_free_ip c w = Inr ip"
    and "nm \<in> set (map name (peers w))"
  shows "fst (newclient c e chat (nm # rest) w) = [NameExists]"
    and "peers (snd (newclient c e chat (nm # rest) w)) = peers w"
    and "iface (snd (newclient c e chat (nm # rest) w)) = iface w"
proof -
  obtain w1 where g: "gen_keypair e w = (Inr (priv, pub), w1)"
    using assms(1) by (cases "gen_keypair e w") simp
  have p: "peers w1 = peers w" "iface w1 = iface w"
    using gen_keypair_peers [of e w] gen_keypair_iface [of e w] g by simp_all
  then have n: "next_free_ip c w1 = Inr ip" using assms(2) by (simp add: next_free_ip_def)
  have "insert_peer nm priv pub ip (now e) w1 = (Inl IntegrityError, w1)"
    using assms(3) p by (simp add: insert_peer_def)
  with g p n show "fst (newclient c e chat (nm # rest) w) = [NameExists]"
    and "peers (snd (newclient c e chat (nm # rest) w)) = peers w"
    and "iface (snd (newclient c e chat (nm # rest) w)) = iface w"
    by (simp_all add: newclient_def)
qed

lemma newclient_fresh:
  assumes "fst (gen_keypair e w) = Inr (priv, pub)" and "next_free_ip c w = Inr ip"
    and "nm \<notin> set (map name (peers w))"
  shows "fst (newclient c e chat (nm # rest) w) =
           (case fst (apply_peer_to_interface c e pub ip w) of
              Inl ex \<Rightarrow> [ApplyFailed (str_exn ex)] | Inr out \<Rightarrow> []) @
           [Document (nm @ ''.conf'') (make_conf c priv ip)
              (Some (''Config '' @ nm @ '' ('' @ ip @ '')''))] @
           (if qrcode_available c
            then [Photo (nm @ ''.png'') (make_conf c priv ip) (Some ''QR'')] else [])"
    and "peers (snd (newclient c e chat (nm # rest) w)) =
           peers w @ [\<lparr>rowid = next_rowid (peers w), name = nm, private_key = priv,
                        public_key = pub, address = ip, created_at = now e\<rparr>]"
    and "iface (snd (newclient c e chat (nm # rest) w)) =
           iface (snd (apply_peer_to_interface c e pub ip w))"
proof -
  obtain w1 where g: "gen_keypair e w = (Inr (priv, pub), w1)"
    using assms(1) by (cases "gen_keypair e w") simp
  have p: "peers w1 = peers w" "iface w1 = iface w"
    using gen_keypair_peers [of e w] gen_keypair_iface [of e w] g by simp_all
  then have n: "next_free_ip c w1 = Inr ip" using assms(2) by (simp add: next_free_ip_def)
  define row where "row = \<lparr>rowid = next_rowid (peers w), name = nm, private_key = priv,
                        public_key = pub, address = ip, created_at = now e\<rparr>"
  define w2 where "w2 = w1\<lparr>peers := peers w @ [row],
                            history := history w1 @ [(Inserted nm, peers w @ [row], iface w1)]\<rparr>"
  have ins: "insert_peer nm priv pub ip (now e) w1 = (Inr (), w2)"
    using assms(3) p by (simp add: insert_peer_def w2_def row_def)
  obtain r3 w3 where a: "apply_peer_to_interface c e pub ip w2 = (r3, w3)"
    by (cases "apply_peer_to_interface c e pub ip w2")
  have "peers (snd (apply_peer_to_interface c e pub ip w2)) = peers w2"
    by (rule apply_peer_peers)
  then have p3: "peers w3 = peers w @ [row]"
    unfolding a by (simp add: w2_def)
  have r3: "r3 = fst (apply_peer_to_interface c e pub ip w)"
    using apply_peer_fst [of c e pub ip w2 w] a by simp
  have "iface w2 = iface w" using p by (simp add: w2_def)
  then have "iface (snd (apply_peer_to_interface c e pub ip w2)) =
             iface (snd (apply_peer_to_interface c e pub ip w))"
    by (simp add: apply_peer_iface)
  then have i3: "iface w3 = iface (snd (apply_peer_to_interface c e pub ip w))"
    unfolding a by simp
  have res: "newclient c e chat (nm # rest) w =
               ((case r3 of Inl ex \<Rightarrow> [ApplyFailed (str_exn ex)] | Inr out \<Rightarrow> []) @
                [Document (nm @ ''.conf'') (make_conf c priv ip)
                   (Some (''Config '' @ nm @ '' ('' @ ip @ '')''))] @
                (if qrcode_available c
                 then [Photo (nm @ ''.png'') (make_conf c priv ip) (Some ''QR'')] else []), w3)"
    using g n ins a by (simp add: newclient_def)
  show "fst (newclient c e chat (nm # rest) w) =
           (case fst (apply_peer_to_interface c e pub ip w) of
              Inl ex \<Rightarrow> [ApplyFailed (str_exn ex)] | Inr out \<Rightarrow> []) @
           [Document (nm @ ''.conf'') (make_conf c priv ip)
              (Some (''Config '' @ nm @ '' ('' @ ip @ '')''))] @
           (if qrcode_available c
            then [Photo (nm @ ''.png'') (make_conf c priv ip) (Some ''QR'')] else [])"
    unfolding res r3 by simp
  show "peers (snd (newclient c e chat (nm # rest) w)) =
           peers w @ [\<lparr>rowid = next_rowid (peers w), name = nm, private_key = priv,
                        public_key = pub, address = ip, created_at = now e\<rparr>]"
    unfolding res using p3 by (simp add: row_def)
  show "iface (snd (newclient c e chat (nm # rest) w)) =
           iface (snd (apply_peer_to_interface c e pub ip w))"
    unfolding res using i3 by simp
qed

text \<open>Evaluation of the sample toolchains and of small decimal renderings.\<close>

lemma str_int_2: "str_int 2 = ''2''"
  by (simp add: str_int_def str_nat.simps digit_char_def)

lemma str_int_3: "str_int 3 = ''3''"
  by (simp add: str_int_def str_nat.simps digit_char_def)

lemma keygen_tool_ok_a: "fst (gen_keypair (tool_ok ''a'') w) = Inr (''priv-a'', ''pub-a'')"
  by (simp add: gen_keypair_def subprocess_run_def tool_ok_def strip_def is_space_def Let_def)

lemma keygen_tool_ok_b: "fst (gen_keypair (tool_ok ''b'') w) = Inr (''priv-b'', ''pub-b'')"
  by (simp add: gen_keypair_def subprocess_run_def tool_ok_def strip_def is_space_def Let_def)

lemma keygen_tool_ok_c: "fst (gen_keypair (tool_ok ''c'') w) = Inr (''priv-c'', ''pub-c'')"
  by (simp add: gen_keypair_def subprocess_run_def tool_ok_def strip_def is_space_def Let_def)


lemma next_free_ip_sample_initial: "next_free_ip sample_config initial = Inr ''10.0.0.2''"
  by (simp add: next_free_ip_def sample_config_def initial_def scan_pool.simps str_int_2)

section \<open>The sample run\<close>

lemma wg_set_tool_ok:
  "run (tool_ok k) [''wg'', ''set'', ifc, ''peer'', pub, ''allowed-ips'', ips] [] = Completed 0 [] []"
  by (simp add: tool_ok_def)

lemma peers_after_alice:
  "peers after_alice =
     [\<lparr>rowid = 1, name = ''alice'', private_key = ''priv-a'', public_key = ''pub-a'',
       address = ''10.0.0.2'', created_at = ''2024-01-01 00:00:00''\<rparr>]"
  unfolding after_alice_def
  by (subst newclient_fresh(2) [OF keygen_tool_ok_a next_free_ip_sample_initial])
     (simp_all add: initial_def next_rowid_def tool_ok_def)

lemma iface_after_alice: "iface after_alice = [(''pub-a'', ''10.0.0.2/32'')]"
  unfolding after_alice_def
  by (subst newclient_fresh(3) [OF keygen_tool_ok_a next_free_ip_sample_initial])
     (simp_all add: initial_def apply_peer_iface sample_config_def wg_set_tool_ok wg_effect_def)

lemma next_free_ip_after_alice: "next_free_ip sample_config after_alice = Inr ''10.0.0.3''"
  by (simp add: next_free_ip_def peers_after_alice sample_config_def scan_pool.simps
        str_int_2 str_int_3)

lemma peers_after_bob:
  "peers after_bob =
     [\<lparr>rowid = 1, name = ''alice'', private_key = ''priv-a'', public_key = ''pub-a'',
       address = ''10.0.0.2'', created_at = ''2024-01-01 00:00:00''\<rparr>,
      \<lparr>rowid = 2, name = ''bob'', private_key = ''priv-b'', public_key = ''pub-b'',
       address = ''10.0.0.3'', created_at = ''2024-01-01 00:00:00''\<rparr>]"
  unfolding after_bob_def
  by (subst newclient_fresh(2) [OF keygen_tool_ok_b next_free_ip_after_alice])
     (simp_all add: peers_after_alice next_rowid_def tool_ok_def)

lemma next_free_ip_after_bob:
  "next_free_ip sample_config after_bob = Inl (RuntimeError ''No free IPs left in pool'')"
  by (simp add: next_free_ip_def peers_after_bob sample_config_def scan_pool.simps
        str_int_2 str_int_3)

lemma serve_alice_bob:
  "serve sample_config [NewClient (tool_ok ''a'') 1 [''alice''], NewClient (tool_ok ''b'') 2 [''bob'']] initial
     = after_bob"
  by (simp add: after_bob_def after_alice_def)

section \<open>Addresses of reachable registries\<close>

text \<open>
  Claim C1. Start from the empty registry and process any sequence of requests one after
  the other (\<open>newclient\<close> and \<open>revoke\<close>, and the read-only commands as well). In the
  resulting registry no two rows have the same address, and every address is the base
  network followed by a number of the inclusive range from \<open>CLIENT_START\<close> to
  \<open>CLIENT_MAX\<close>.
\<close>

theorem registry_addresses_unique_in_pool:
  "distinct (map address (peers (serve c rs initial))) \<and>
   (\<forall>p \<in> set (peers (serve c rs initial)).
      \<exists>i. CLIENT_START c \<le> i \<and> i \<le> CLIENT_MAX c \<and> address p = CLIENT_BASE c @ str_int i)"
  using serve_registry_ok [OF initial_registry_ok, of c rs]
  by (simp add: registry_ok_def in_pool_def)

theorem registry_addresses_unique_in_pool_witness:
  "map address (peers (serve sample_config
      [NewClient (tool_ok ''a'') 1 [''alice''], NewClient (tool_ok ''b'') 2 [''bob'']] initial)) =
     [''10.0.0.2'', ''10.0.0.3''] \<and>
   distinct (map address (peers (serve sample_config
      [NewClient (tool_ok ''a'') 1 [''alice''], NewClient (tool_ok ''b'') 2 [''bob'']] initial))) \<and>
   (\<exists>i. CLIENT_START sample_config \<le> i \<and> i \<le> CLIENT_MAX sample_config \<and>
        ''10.0.0.2'' = CLIENT_BASE sample_config @ str_int i) \<and>
   (\<exists>i. CLIENT_START sample_config \<le> i \<and> i \<le> CLIENT_MAX sample_config \<and>
        ''10.0.0.3'' = CLIENT_BASE sample_config @ str_int i)"
proof -
  define rs where "rs = [NewClient (tool_ok ''a'') 1 [''alice''], NewClient (tool_ok ''b'') 2 [''bob'']]"
  have ps: "peers (serve sample_config rs initial) = peers after_bob"
    unfolding rs_def by (simp only: serve_alice_bob)
  have a: "map address (peers (serve sample_config rs initial)) = [''10.0.0.2'', ''10.0.0.3'']"
    unfolding ps by (simp add: peers_after_bob)
  note t = registry_addresses_unique_in_pool [of sample_config rs]
  from t have d: "distinct (map address (peers (serve sample_config rs initial)))" by blast
  from t have b: "\<forall>x \<in> set (map address (peers (serve sample_config rs initial))).
      \<exists>i. CLIENT_START sample_config \<le> i \<and> i \<le> CLIENT_MAX sample_config \<and>
          x = CLIENT_BASE sample_config @ str_int i"
    by simp
  from b have e2: "\<exists>i. CLIENT_START sample_config \<le> i \<and> i \<le> CLIENT_MAX sample_config \<and>
        ''10.0.0.2'' = CLIENT_BASE sample_config @ str_int i"
    unfolding a by simp
  from b have e3: "\<exists>i. CLIENT_START sample_config \<le> i \<and> i \<le> CLIENT_MAX sample_config \<and>
        ''10.0.0.3'' = CLIENT_BASE sample_config @ str_int i"
    unfolding a by simp
  from a d e2 e3 show ?thesis unfolding rs_def by blast
qed

section \<open>The allocator scans the pool in ascending order\<close>

lemma next_free_ip_first:
  assumes "next_free_ip c w = Inr ip"
  shows "\<exists>i. CLIENT_START c \<le> i \<and> i \<le> CLIENT_MAX c \<and> ip = CLIENT_BASE c @ str_int i \<and>
             ip \<notin> set (map address (peers w)) \<and>
             (\<forall>k. CLIENT_START c \<le> k \<and> k < i \<longrightarrow>
                  CLIENT_BASE c @ str_int k \<in> set (map address (peers w)))"
  using scan_pool_Inr [of c "set (map address (peers w))" "CLIENT_START c" ip] assms
  unfolding next_free_ip_def by blast

lemma next_free_ip_exhausted_iff:
  "(\<forall>k. CLIENT_START c \<le> k \<and> k \<le> CLIENT_MAX c \<longrightarrow>
        CLIENT_BASE c @ str_int k \<in> set (map address (peers w))) \<longleftrightarrow>
   next_free_ip c w = Inl (RuntimeError ''No free IPs left in pool'')"
proof
  assume full: "\<forall>k. CLIENT_START c \<le> k \<and> k \<le> CLIENT_MAX c \<longrightarrow>
        CLIENT_BASE c @ str_int k \<in> set (map address (peers w))"
  show "next_free_ip c w = Inl (RuntimeError ''No free IPs left in pool'')"
  proof (cases "next_free_ip c w")
    case (Inl ex)
    then show ?thesis
      using scan_pool_Inl [of c "set (map address (peers w))" "CLIENT_START c" ex]
      by (simp add: next_free_ip_def)
  next
    case (Inr ip)
    from next_free_ip_first [OF this] full show ?thesis by blast
  qed
next
  assume "next_free_ip c w = Inl (RuntimeError ''No free IPs left in pool'')"
  then show "\<forall>k. CLIENT_START c \<le> k \<and> k \<le> CLIENT_MAX c \<longrightarrow>
        CLIENT_BASE c @ str_int k \<in> set (map address (peers w))"
    using scan_pool_Inl [of c "set (map address (peers w))" "CLIENT_START c"]
    by (simp add: next_free_ip_def)
qed

text \<open>A pool of two addresses, numbered 2 and 3.\<close>

lemma pool23_empty:
  "CLIENT_START c = 2 \<Longrightarrow> CLIENT_MAX c = 3 \<Longrightarrow> peers w = [] \<Longrightarrow>
   next_free_ip c w = Inr (CLIENT_BASE c @ ''2'')"
  by (simp add: next_free_ip_def scan_pool.simps str_int_2)

lemma pool23_one:
  "CLIENT_START c = 2 \<Longrightarrow> CLIENT_MAX c = 3 \<Longrightarrow> map address (peers w) = [CLIENT_BASE c @ ''2''] \<Longrightarrow>
   next_free_ip c w = Inr (CLIENT_BASE c @ ''3'')"
  by (simp add: next_free_ip_def scan_pool.simps str_int_2 str_int_3)

lemma pool23_two:
  "CLIENT_START c = 2 \<Longrightarrow> CLIENT_MAX c = 3 \<Longrightarrow>
   map address (peers w) = [CLIENT_BASE c @ ''2'', CLIENT_BASE c @ ''3''] \<Longrightarrow>
   next_free_ip c w = Inl (RuntimeError ''No free IPs left in pool'')"
  by (simp add: next_free_ip_def scan_pool.simps str_int_2 str_int_3)

lemma pool23_three_requests:
  fixes c :: config and e1 e2 e3 :: env and n1 n2 n3 :: string and ch1 ch2 ch3 :: int
  assumes s: "CLIENT_START c = 2" and m: "CLIENT_MAX c = 3"
    and k1: "keygen_ok e1" and k2: "keygen_ok e2" and k3: "keygen_ok e3" and ne: "n1 \<noteq> n2"
  defines "r1 \<equiv> newclient c e1 ch1 [n1] initial"
  defines "r2 \<equiv> newclient c e2 ch2 [n2] (snd r1)"
  defines "r3 \<equiv> newclient c e3 ch3 [n3] (snd r2)"
  shows "map address (peers (snd r1)) = [CLIENT_BASE c @ ''2'']"
    and "\<exists>priv. Document (n1 @ ''.conf'') (make_conf c priv (CLIENT_BASE c @ ''2''))
                  (Some (''Config '' @ n1 @ '' ('' @ CLIENT_BASE c @ ''2'' @ '')'')) \<in> set (fst r1)"
    and "map address (peers (snd r2)) = [CLIENT_BASE c @ ''2'', CLIENT_BASE c @ ''3'']"
    and "\<exists>priv. Document (n2 @ ''.conf'') (make_conf c priv (CLIENT_BASE c @ ''3''))
                  (Some (''Config '' @ n2 @ '' ('' @ CLIENT_BASE c @ ''3'' @ '')'')) \<in> set (fst r2)"
    and "fst r3 = [ErrorReply ''No free IPs left in pool'']"
    and "peers (snd r3) = peers (snd r2)"
proof -
  from keygen_okD [OF k1] obtain priv1 pub1 where g1: "\<And>w. fst (gen_keypair e1 w) = Inr (priv1, pub1)"
    by blast
  from keygen_okD [OF k2] obtain priv2 pub2 where g2: "\<And>w. fst (gen_keypair e2 w) = Inr (priv2, pub2)"
    by blast
  from keygen_okD [OF k3] obtain priv3 pub3 where g3: "\<And>w. fst (gen_keypair e3 w) = Inr (priv3, pub3)"
    by blast
  have f0: "next_free_ip c initial = Inr (CLIENT_BASE c @ ''2'')"
    using s m by (intro pool23_empty) (simp_all add: initial_def)
  have fresh1: "n1 \<notin> set (map name (peers initial))" by (simp add: initial_def)
  have p1: "peers (snd r1) = [\<lparr>rowid = next_rowid (peers initial), name = n1, private_key = priv1,
                        public_key = pub1, address = CLIENT_BASE c @ ''2'', created_at = now e1\<rparr>]"
    unfolding r1_def using newclient_fresh(2) [OF g1 f0 fresh1, of ch1 "[]"]
    by (simp add: initial_def)
  show a1: "map address (peers (snd r1)) = [CLIENT_BASE c @ ''2'']" by (simp add: p1)
  show "\<exists>priv. Document (n1 @ ''.conf'') (make_conf c priv (CLIENT_BASE c @ ''2''))
                  (Some (''Config '' @ n1 @ '' ('' @ CLIENT_BASE c @ ''2'' @ '')'')) \<in> set (fst r1)"
    unfolding r1_def using newclient_fresh(1) [OF g1 f0 fresh1, of ch1 "[]"]
    by (intro exI[of _ priv1]) simp
  have f1: "next_free_ip c (snd r1) = Inr (CLIENT_BASE c @ ''3'')"
    using pool23_one [OF s m a1] .
  have fresh2: "n2 \<notin> set (map name (peers (snd r1)))" using ne by (simp add: p1)
  have p2: "peers (snd r2) = peers (snd r1) @
              [\<lparr>rowid = next_rowid (peers (snd r1)), name = n2, private_key = priv2,
                public_key = pub2, address = CLIENT_BASE c @ ''3'', created_at = now e2\<rparr>]"
    unfolding r2_def using newclient_fresh(2) [OF g2 f1 fresh2, of ch2 "[]"] by simp
  show a2: "map address (peers (snd r2)) = [CLIENT_BASE c @ ''2'', CLIENT_BASE c @ ''3'']"
    by (simp add: p2 a1)
  show "\<exists>priv. Document (n2 @ ''.conf'') (make_conf c priv (CLIENT_BASE c @ ''3''))
                  (Some (''Config '' @ n2 @ '' ('' @ CLIENT_BASE c @ ''3'' @ '')'')) \<in> set (fst r2)"
    unfolding r2_def using newclient_fresh(1) [OF g2 f1 fresh2, of ch2 "[]"]
    by (intro exI[of _ priv2]) simp
  have f2: "next_free_ip c (snd r2) = Inl (RuntimeError ''No free IPs left in pool'')"
    using pool23_two [OF s m a2] .
  show "fst r3 = [ErrorReply ''No free IPs left in pool'']"
    unfolding r3_def using newclient_pool_exhausted(1) [OF g3 f2, of ch3 n3 "[]"] by simp
  show "peers (snd r3) = peers (snd r2)"
    unfolding r3_def using newclient_pool_exhausted(2) [OF g3 f2, of ch3 n3 "[]"] by simp
qed

lemma keygen_ok_samples: "keygen_ok (tool_ok ''a'')" "keygen_ok (tool_ok ''b'')" "keygen_ok (tool_ok ''c'')"
  by (simp_all add: keygen_ok_def keygen_tool_ok_a keygen_tool_ok_b keygen_tool_ok_c)

text \<open>
  Claim C2. Whatever the pool range and the addresses in use: when \<open>next_free_ip\<close> returns
  an address, it is the candidate of some number \<open>i\<close> of the range, it is not in use, and
  the candidates of all smaller numbers of the range are in use (the first free one in
  ascending order); and it raises \<open>RuntimeError('No free IPs left in pool')\<close>, the pool
  exhaustion error, exactly when every candidate of the range is in use. In a pool with
  start 2 and end 3, with key generation working and two different names, the first
  \<open>newclient\<close> returns a profile for the address numbered 2, the second one for the
  address numbered 3, and a third \<open>newclient\<close> answers with the pool exhaustion error and
  leaves the registry as it was.
\<close>

theorem next_free_ip_scans_pool:
  "(\<forall>ip. next_free_ip c w = Inr ip \<longrightarrow>
      (\<exists>i. CLIENT_START c \<le> i \<and> i \<le> CLIENT_MAX c \<and> ip = CLIENT_BASE c @ str_int i \<and>
           ip \<notin> set (map address (peers w)) \<and>
           (\<forall>k. CLIENT_START c \<le> k \<and> k < i \<longrightarrow>
                CLIENT_BASE c @ str_int k \<in> set (map address (peers w))))) \<and>
   ((\<forall>k. CLIENT_START c \<le> k \<and> k \<le> CLIENT_MAX c \<longrightarrow>
        CLIENT_BASE c @ str_int k \<in> set (map address (peers w))) \<longleftrightarrow>
    next_free_ip c w = Inl (RuntimeError ''No free IPs left in pool'')) \<and>
   (CLIENT_START c = 2 \<and> CLIENT_MAX c = 3 \<and> keygen_ok e1 \<and> keygen_ok e2 \<and> keygen_ok e3 \<and>
    n1 \<noteq> n2 \<longrightarrow>
      (let r1 = newclient c e1 ch1 [n1] initial;
           r2 = newclient c e2 ch2 [n2] (snd r1);
           r3 = newclient c e3 ch3 [n3] (snd r2)
       in map address (peers (snd r1)) = [CLIENT_BASE c @ ''2''] \<and>
          (\<exists>priv. Document (n1 @ ''.conf'') (make_conf c priv (CLIENT_BASE c @ ''2''))
                  (Some (''Config '' @ n1 @ '' ('' @ CLIENT_BASE c @ ''2'' @ '')'')) \<in> set (fst r1)) \<and>
          map address (peers (snd r2)) = [CLIENT_BASE c @ ''2'', CLIENT_BASE c @ ''3''] \<and>
          (\<exists>priv. Document (n2 @ ''.conf'') (make_conf c priv (CLIENT_BASE c @ ''3''))
                  (Some (''Config '' @ n2 @ '' ('' @ CLIENT_BASE c @ ''3'' @ '')'')) \<in> set (fst r2)) \<and>
          fst r3 = [ErrorReply ''No free IPs left in pool''] \<and>
          peers (snd r3) = peers (snd r2)))"
proof (intro conjI)
  show "\<forall>ip. next_free_ip c w = Inr ip \<longrightarrow>
      (\<exists>i. CLIENT_START c \<le> i \<and> i \<le> CLIENT_MAX c \<and> ip = CLIENT_BASE c @ str_int i \<and>
           ip \<notin> set (map address (peers w)) \<and>
           (\<forall>k. CLIENT_START c \<le> k \<and> k < i \<longrightarrow>
                CLIENT_BASE c @ str_int k \<in> set (map address (peers w))))"
    using next_free_ip_first [of c w] by blast
  show "(\<forall>k. CLIENT_START c \<le> k \<and> k \<le> CLIENT_MAX c \<longrightarrow>
        CLIENT_BASE c @ str_int k \<in> set (map address (peers w))) \<longleftrightarrow>
    next_free_ip c w = Inl (RuntimeError ''No free IPs left in pool'')"
    by (rule next_free_ip_exhausted_iff)
  show "CLIENT_START c = 2 \<and> CLIENT_MAX c = 3 \<and> keygen_ok e1 \<and> keygen_ok e2 \<and> keygen_ok e3 \<and>
    n1 \<noteq> n2 \<longrightarrow>
      (let r1 = newclient c e1 ch1 [n1] initial;
           r2 = newclient c e2 ch2 [n2] (snd r1);
           r3 = newclient c e3 ch3 [n3] (snd r2)
       in map address (peers (snd r1)) = [CLIENT_BASE c @ ''2''] \<and>
          (\<exists>priv. Document (n1 @ ''.conf'') (make_conf c priv (CLIENT_BASE c @ ''2''))
                  (Some (''Config '' @ n1 @ '' ('' @ CLIENT_BASE c @ ''2'' @ '')'')) \<in> set (fst r1)) \<and>
          map address (peers (snd r2)) = [CLIENT_BASE c @ ''2'', CLIENT_BASE c @ ''3''] \<and>
          (\<exists>priv. Document (n2 @ ''.conf'') (make_conf c priv (CLIENT_BASE c @ ''3''))
                  (Some (''Config '' @ n2 @ '' ('' @ CLIENT_BASE c @ ''3'' @ '')'')) \<in> set (fst r2)) \<and>
          fst r3 = [ErrorReply ''No free IPs left in pool''] \<and>
          peers (snd r3) = peers (snd r2))"
  proof (intro impI)
    assume a: "CLIENT_START c = 2 \<and> CLIENT_MAX c = 3 \<and> keygen_ok e1 \<and> keygen_ok e2 \<and>
      keygen_ok e3 \<and> n1 \<noteq> n2"
    then have h: "CLIENT_START c = 2" "CLIENT_MAX c = 3" "keygen_ok e1" "keygen_ok e2"
      "keygen_ok e3" "n1 \<noteq> n2" by simp_all
    note run = pool23_three_requests [OF h]
    show "let r1 = newclient c e1 ch1 [n1] initial;
           r2 = newclient c e2 ch2 [n2] (snd r1);
           r3 = newclient c e3 ch3 [n3] (snd r2)
       in map address (peers (snd r1)) = [CLIENT_BASE c @ ''2''] \<and>
          (\<exists>priv. Document (n1 @ ''.conf'') (make_conf c priv (CLIENT_BASE c @ ''2''))
                  (Some (''Config '' @ n1 @ '' ('' @ CLIENT_BASE c @ ''2'' @ '')'')) \<in> set (fst r1)) \<and>
          map address (peers (snd r2)) = [CLIENT_BASE c @ ''2'', CLIENT_BASE c @ ''3''] \<and>
          (\<exists>priv. Document (n2 @ ''.conf'') (make_conf c priv (CLIENT_BASE c @ ''3''))
                  (Some (''Config '' @ n2 @ '' ('' @ CLIENT_BASE c @ ''3'' @ '')'')) \<in> set (fst r2)) \<and>
          fst r3 = [ErrorReply ''No free IPs left in pool''] \<and>
          peers (snd r3) = peers (snd r2)"
      unfolding Let_def by (intro conjI run)
  qed
qed


theorem next_free_ip_scans_pool_witness:
  "CLIENT_START sample_config = 2 \<and> CLIENT_MAX sample_config = 3 \<and>
   keygen_ok (tool_ok ''a'') \<and> keygen_ok (tool_ok ''b'') \<and> keygen_ok (tool_ok ''c'') \<and>
   ''alice'' \<noteq> ''bob'' \<and>
   next_free_ip sample_config initial = Inr ''10.0.0.2'' \<and>
   (\<exists>i. CLIENT_START sample_config \<le> i \<and> i \<le> CLIENT_MAX sample_config \<and>
        ''10.0.0.2'' = CLIENT_BASE sample_config @ str_int i \<and>
        ''10.0.0.2'' \<notin> set (map address (peers initial))) \<and>
   map address (peers (snd (newclient sample_config (tool_ok ''a'') 1 [''alice''] initial))) =
     [''10.0.0.2''] \<and>
   map address (peers (snd (newclient sample_config (tool_ok ''b'') 2 [''bob'']
       (snd (newclient sample_config (tool_ok ''a'') 1 [''alice''] initial))))) =
     [''10.0.0.2'', ''10.0.0.3''] \<and>
   fst (newclient sample_config (tool_ok ''c'') 3 [''carol'']
       (snd (newclient sample_config (tool_ok ''b'') 2 [''bob'']
          (snd (newclient sample_config (tool_ok ''a'') 1 [''alice''] initial))))) =
     [ErrorReply ''No free IPs left in pool'']"
proof -
  have hyp: "CLIENT_START sample_config = 2 \<and> CLIENT_MAX sample_config = 3 \<and>
     keygen_ok (tool_ok ''a'') \<and> keygen_ok (tool_ok ''b'') \<and> keygen_ok (tool_ok ''c'') \<and>
     ''alice'' \<noteq> ''bob''"
    by (simp add: sample_config_def keygen_ok_samples)
  have base: "CLIENT_BASE sample_config = ''10.0.0.''" by (simp add: sample_config_def)
  have free: "next_free_ip sample_config initial = Inr ''10.0.0.2''"
    by (rule next_free_ip_sample_initial)
  note t = next_free_ip_scans_pool [where c = sample_config and w = initial
      and ?e1.0 = "tool_ok ''a''" and ?e2.0 = "tool_ok ''b''" and ?e3.0 = "tool_ok ''c''"
      and ?n1.0 = "''alice''" and ?n2.0 = "''bob''" and ?n3.0 = "''carol''"
      and ?ch1.0 = 1 and ?ch2.0 = 2 and ?ch3.0 = 3]
  from t free have first: "\<exists>i. CLIENT_START sample_config \<le> i \<and> i \<le> CLIENT_MAX sample_config \<and>
        ''10.0.0.2'' = CLIENT_BASE sample_config @ str_int i \<and>
        ''10.0.0.2'' \<notin> set (map address (peers initial))"
    by blast
  from t hyp have "let r1 = newclient sample_config (tool_ok ''a'') 1 [''alice''] initial;
           r2 = newclient sample_config (tool_ok ''b'') 2 [''bob''] (snd r1);
           r3 = newclient sample_config (tool_ok ''c'') 3 [''carol''] (snd r2)
       in map address (peers (snd r1)) = [CLIENT_BASE sample_config @ ''2''] \<and>
          (\<exists>priv. Document (''alice'' @ ''.conf'') (make_conf sample_config priv (CLIENT_BASE sample_config @ ''2''))
                  (Some (''Config '' @ ''alice'' @ '' ('' @ CLIENT_BASE sample_config @ ''2'' @ '')'')) \<in> set (fst r1)) \<and>
          map address (peers (snd r2)) = [CLIENT_BASE sample_config @ ''2'', CLIENT_BASE sample_config @ ''3''] \<and>
          (\<exists>priv. Document (''bob'' @ ''.conf'') (make_conf sample_config priv (CLIENT_BASE sample_config @ ''3''))
                  (Some (''Config '' @ ''bob'' @ '' ('' @ CLIENT_BASE sample_config @ ''3'' @ '')'')) \<in> set (fst r2)) \<and>
          fst r3 = [ErrorReply ''No free IPs left in pool''] \<and>
          peers (snd r3) = peers (snd r2)"
    by blast
  then have run: "map address (peers (snd (newclient sample_config (tool_ok ''a'') 1 [''alice''] initial))) =
     [''10.0.0.2'']"
   "map address (peers (snd (newclient sample_config (tool_ok ''b'') 2 [''bob'']
       (snd (newclient sample_config (tool_ok ''a'') 1 [''alice''] initial))))) =
     [''10.0.0.2'', ''10.0.0.3'']"
   "fst (newclient sample_config (tool_ok ''c'') 3 [''carol'']
       (snd (newclient sample_config (tool_ok ''b'') 2 [''bob'']
          (snd (newclient sample_config (tool_ok ''a'') 1 [''alice''] initial))))) =
     [ErrorReply ''No free IPs left in pool'']"
    unfolding Let_def base by simp_all
  from hyp free first run show ?thesis by blast
qed

section \<open>A request for a name that is already registered\<close>

lemma gen_keypair_calls:
  "set (calls (snd (gen_keypair e w))) \<subseteq> set (calls w) \<union> {[''wg'', ''genkey''], [''wg'', ''pubkey'']}"
  by (auto simp: gen_keypair_def subprocess_run_def Let_def split: run_result.splits)

lemma newclient_existing_snd:
  assumes "nm \<in> set (map name (peers w))"
  shows "snd (newclient c e chat (nm # rest) w) = snd (gen_keypair e w)"
proof -
  obtain r w1 where g: "gen_keypair e w = (r, w1)" by (cases "gen_keypair e w")
  have p: "peers w1 = peers w" using gen_keypair_peers [of e w] g by simp
  show ?thesis
  proof (cases r)
    case (Inl ex)
    with g show ?thesis by (simp add: newclient_def)
  next
    case (Inr kp)
    obtain priv pub where kp: "kp = (priv, pub)" by (cases kp)
    show ?thesis
    proof (cases "next_free_ip c w1")
      case (Inl ex)
      with g Inr kp show ?thesis by (simp add: newclient_def)
    next
      case ip: (Inr ip)
      have "insert_peer nm priv pub ip (now e) w1 = (Inl IntegrityError, w1)"
        using assms p by (simp add: insert_peer_def)
      with g Inr kp ip show ?thesis by (simp add: newclient_def)
    qed
  qed
qed

lemma one_row_per_name:
  "distinct (map f xs) \<Longrightarrow> x \<in> set (map f xs) \<Longrightarrow> length (filter (\<lambda>p. f p = x) xs) = 1"
proof (induction xs)
  case Nil
  then show ?case by simp
next
  case (Cons a xs)
  show ?case
  proof (cases "f a = x")
    case True
    with Cons.prems have "x \<notin> f ` set xs" by auto
    then have "filter (\<lambda>p. f p = x) xs = []" by (auto simp: filter_empty_conv)
    with True show ?thesis by simp
  next
    case False
    with Cons show ?thesis by auto
  qed
qed


lemma names_distinct_step:
  "distinct (map name (peers w)) \<Longrightarrow> distinct (map name (peers (snd (handle c r w))))"
proof (cases r)
  case (NewClient e chat args)
  assume d: "distinct (map name (peers w))"
  from newclient_peers [of c e chat args w] NewClient d show ?thesis by auto
next
  case (Revoke e chat args)
  assume d: "distinct (map name (peers w))"
  from revoke_peers [of c e chat args w] Revoke d show ?thesis
    by (auto simp: distinct_map_filter)
qed simp_all

lemma serve_names_distinct:
  "distinct (map name (peers w)) \<Longrightarrow> distinct (map name (peers (serve c rs w)))"
  by (induction rs arbitrary: w) (simp_all add: names_distinct_step)

text \<open>
  Claim C3, as the code has it. \<open>newclient\<close> generates the key pair and allocates the
  address before it tries the insert, and the duplicate name is detected by the insert.
  So when \<open>newclient\<close> is called with a name that is already in the registry: the
  registry is unchanged (with unique names it still holds exactly one row of that name,
  and the generated key pair is stored nowhere), the interface is unchanged, and the only
  commands started are the two of key generation; and if key generation succeeds and the
  pool still has a free address, the answer is the duplicate-name reply.
\<close>

theorem newclient_existing_name:
  assumes "nm \<in> set (map name (peers w))"
  shows "peers (snd (newclient c e chat (nm # rest) w)) = peers w \<and>
         iface (snd (newclient c e chat (nm # rest) w)) = iface w \<and>
         set (calls (snd (newclient c e chat (nm # rest) w))) \<subseteq>
           set (calls w) \<union> {[''wg'', ''genkey''], [''wg'', ''pubkey'']} \<and>
         (distinct (map name (peers w)) \<longrightarrow>
            length (filter (\<lambda>p. name p = nm) (peers (snd (newclient c e chat (nm # rest) w)))) = 1) \<and>
         (keygen_ok e \<and> (\<exists>ip. next_free_ip c w = Inr ip) \<longrightarrow>
            fst (newclient c e chat (nm # rest) w) = [NameExists])"
proof -
  have s: "snd (newclient c e chat (nm # rest) w) = snd (gen_keypair e w)"
    using assms by (rule newclient_existing_snd)
  have p: "peers (snd (newclient c e chat (nm # rest) w)) = peers w" unfolding s by simp
  have i: "iface (snd (newclient c e chat (nm # rest) w)) = iface w" unfolding s by simp
  have cs: "set (calls (snd (newclient c e chat (nm # rest) w))) \<subseteq>
           set (calls w) \<union> {[''wg'', ''genkey''], [''wg'', ''pubkey'']}"
    unfolding s by (rule gen_keypair_calls)
  have one: "distinct (map name (peers w)) \<longrightarrow>
            length (filter (\<lambda>p. name p = nm) (peers (snd (newclient c e chat (nm # rest) w)))) = 1"
    unfolding p using one_row_per_name [of name "peers w" nm] assms by blast
  have dup: "keygen_ok e \<and> (\<exists>ip. next_free_ip c w = Inr ip) \<longrightarrow>
            fst (newclient c e chat (nm # rest) w) = [NameExists]"
  proof
    assume a: "keygen_ok e \<and> (\<exists>ip. next_free_ip c w = Inr ip)"
    then obtain priv pub ip where "fst (gen_keypair e w) = Inr (priv, pub)"
      and "next_free_ip c w = Inr ip"
      using keygen_okD [of e] by blast
    then show "fst (newclient c e chat (nm # rest) w) = [NameExists]"
      using assms by (rule newclient_name_taken(1))
  qed
  from p i cs one dup show ?thesis by blast
qed

theorem newclient_existing_name_witness:
  "''alice'' \<in> set (map name (peers after_alice)) \<and>
   distinct (map name (peers after_alice)) \<and>
   keygen_ok (tool_ok ''c'') \<and>
   next_free_ip sample_config after_alice = Inr ''10.0.0.3'' \<and>
   fst (newclient sample_config (tool_ok ''c'') 3 [''alice''] after_alice) = [NameExists] \<and>
   peers (snd (newclient sample_config (tool_ok ''c'') 3 [''alice''] after_alice)) = peers after_alice \<and>
   iface (snd (newclient sample_config (tool_ok ''c'') 3 [''alice''] after_alice)) = iface after_alice \<and>
   length (filter (\<lambda>p. name p = ''alice'')
      (peers (snd (newclient sample_config (tool_ok ''c'') 3 [''alice''] after_alice)))) = 1"
proof -
  have h: "''alice'' \<in> set (map name (peers after_alice))" by (simp add: peers_after_alice)
  have d: "distinct (map name (peers after_alice))" by (simp add: peers_after_alice)
  have k: "keygen_ok (tool_ok ''c'')" by (rule keygen_ok_samples)
  have f: "next_free_ip sample_config after_alice = Inr ''10.0.0.3''"
    by (rule next_free_ip_after_alice)
  from newclient_existing_name [OF h, of sample_config "tool_ok ''c''" 3 "[]"] d k f h
  show ?thesis by blast
qed

text \<open>
  The claim as stated fails when the pool is exhausted: in the sample run the registry
  holds \<open>alice\<close> and \<open>bob\<close> on the two addresses of the pool, and a further
  \<open>/newclient alice\<close> is answered with the pool exhaustion error raised by
  \<open>next_free_ip\<close>, not with the duplicate-name reply.
\<close>

theorem newclient_existing_name_counterexample:
  "''alice'' \<in> set (map name (peers after_bob)) \<and>
   fst (newclient sample_config (tool_ok ''c'') 3 [''alice''] after_bob) =
     [ErrorReply ''No free IPs left in pool''] \<and>
   fst (newclient sample_config (tool_ok ''c'') 3 [''alice''] after_bob) \<noteq> [NameExists]"
  using newclient_pool_exhausted(1) [OF keygen_tool_ok_c next_free_ip_after_bob, of 3 "''alice''" "[]"]
  by (simp add: peers_after_bob)

section \<open>A failed interface application\<close>



section \<open>Revocation and the interface\<close>

lemma select_by_name_SomeD:
  "select_by_name nm w = Some row \<Longrightarrow> row \<in> set (peers w) \<and> name row = nm"
  by (auto simp: select_by_name_def find_Some_iff in_set_conv_nth)

lemma revoke_unchanged:
  "args = [] \<or> not_admin c chat \<or> select_by_name (requested_name args) w = None \<Longrightarrow>
   snd (revoke c e chat args w) = w"
  by (auto simp: revoke_def requested_name_def split: list.splits)

lemma revoke_existing:
  assumes "\<not> not_admin c chat" and "select_by_name nm w = Some row"
  shows "peers (snd (revoke c e chat (nm # rest) w)) = filter (\<lambda>p. name p \<noteq> nm) (peers w)"
    and "iface (snd (revoke c e chat (nm # rest) w)) =
           (if APPLY_PEER c
            then wg_effect [''wg'', ''set'', SERVER_INTERFACE c, ''peer'', public_key row, ''remove'']
                   (run e [''wg'', ''set'', SERVER_INTERFACE c, ''peer'', public_key row, ''remove''] [])
                   (iface w)
            else iface w)"
    and "fst (revoke c e chat (nm # rest) w) =
           (if APPLY_PEER c
            then (case run e [''wg'', ''set'', SERVER_INTERFACE c, ''peer'', public_key row, ''remove''] [] of
                    Raised m \<Rightarrow> [RemoveFailed m] | Completed rc out err \<Rightarrow> [])
            else []) @ [Revoked nm (address row)]"
  using assms
  by (simp_all add: revoke_def delete_by_name_def subprocess_run_def Let_def
        split: run_result.splits)

text \<open>Whatever the removal command does, the row is gone after \<open>revoke\<close>.\<close>

lemma revoke_deletes_row:
  assumes "\<not> not_admin c chat" and "select_by_name nm w = Some row"
  shows "select_by_name nm (snd (revoke c e chat (nm # rest) w)) = None"
  unfolding select_by_name_def revoke_existing(1) [OF assms]
  by (simp add: find_None_iff)

text \<open>An exception raised while starting the removal command is reported.\<close>

lemma revoke_reports_exception:
  assumes "\<not> not_admin c chat" and "select_by_name nm w = Some row" and "APPLY_PEER c"
    and "run e [''wg'', ''set'', SERVER_INTERFACE c, ''peer'', public_key row, ''remove''] [] = Raised m"
  shows "fst (revoke c e chat (nm # rest) w) = [RemoveFailed m, Revoked nm (address row)]"
  using revoke_existing(3) [OF assms(1,2)] assms(3,4) by simp

text \<open>A completed removal command is never reported, whatever its exit status.\<close>

lemma revoke_silent_on_exit_status:
  assumes "\<not> not_admin c chat" and "select_by_name nm w = Some row"
    and "run e [''wg'', ''set'', SERVER_INTERFACE c, ''peer'', public_key row, ''remove''] [] =
           Completed rc out err"
  shows "fst (revoke c e chat (nm # rest) w) = [Revoked nm (address row)]"
  using revoke_existing(3) [OF assms(1,2)] assms(3) by simp

lemma wg_effect_add_keys:
  "set (map fst (wg_effect [a, b, ifc, k, pub, d, ips] r tbl)) \<subseteq> insert pub (set (map fst tbl))"
  by (auto simp: wg_effect_def split: run_result.splits)

lemma wg_effect_remove_ok:
  "wg_effect [''wg'', ''set'', ifc, ''peer'', pub, ''remove''] (Completed 0 out err) tbl =
     filter (\<lambda>x. fst x \<noteq> pub) tbl"
  by (simp add: wg_effect_def)

lemma events_since_append: "history w' = history w @ H \<Longrightarrow> events_since w w' = map fst H"
  by (simp add: events_since_def)

lemma events_since_same [simp]: "events_since w w = []"
  by (simp add: events_since_def)

lemma subprocess_run_history [simp]:
  "history (snd (subprocess_run e cmd inp w)) =
     history w @ [(Ran cmd, peers w, wg_effect cmd (run e cmd inp) (iface w))]"
  by (simp add: subprocess_run_def Let_def)

lemma gen_keypair_history:
  "history (snd (gen_keypair e w)) = history w @ [(Ran [''wg'', ''genkey''], peers w, iface w)] \<or>
   history (snd (gen_keypair e w)) =
     history w @ [(Ran [''wg'', ''genkey''], peers w, iface w),
                  (Ran [''wg'', ''pubkey''], peers w, iface w)]"
  by (auto simp: gen_keypair_def subprocess_run_def Let_def split: run_result.splits)

lemma apply_peer_history:
  "history (snd (apply_peer_to_interface c e pub ip w)) =
     history w @
     (if APPLY_PEER c
      then [(Ran [''wg'', ''set'', SERVER_INTERFACE c, ''peer'', pub, ''allowed-ips'', ip @ ''/32''],
             peers w, iface (snd (apply_peer_to_interface c e pub ip w)))]
      else [])"
  by (simp add: apply_peer_to_interface_def subprocess_run_def Let_def split: run_result.splits)

lemma insert_peer_fresh:
  assumes "nm \<notin> set (map name (peers w))"
  shows "fst (insert_peer nm priv pub ip ts w) = Inr ()"
    and "peers (snd (insert_peer nm priv pub ip ts w)) =
           peers w @ [\<lparr>rowid = next_rowid (peers w), name = nm, private_key = priv,
                        public_key = pub, address = ip, created_at = ts\<rparr>]"
    and "iface (snd (insert_peer nm priv pub ip ts w)) = iface w"
    and "history (snd (insert_peer nm priv pub ip ts w)) =
           history w @ [(Inserted nm, peers (snd (insert_peer nm priv pub ip ts w)), iface w)]"
  using assms by (simp_all add: insert_peer_def)

lemma newclient_stopped_snd:
  assumes "(\<exists>ex. fst (gen_keypair e w) = Inl ex) \<or> (\<exists>ex. next_free_ip c w = Inl ex) \<or>
           nm \<in> set (map name (peers w))"
  shows "snd (newclient c e chat (nm # rest) w) = snd (gen_keypair e w)"
proof -
  obtain r w1 where g: "gen_keypair e w = (r, w1)" by (cases "gen_keypair e w")
  have p: "peers w1 = peers w" using gen_keypair_peers [of e w] g by simp
  show ?thesis
  proof (cases r)
    case (Inl ex)
    with g show ?thesis by (simp add: newclient_def)
  next
    case (Inr kp)
    obtain priv pub where kp: "kp = (priv, pub)" by (cases kp)
    show ?thesis
    proof (cases "next_free_ip c w1")
      case (Inl ex)
      with g Inr kp show ?thesis by (simp add: newclient_def)
    next
      case ip: (Inr ip)
      then have "next_free_ip c w = Inr ip" using next_free_ip_peers [OF p] by simp
      with assms g Inr have "nm \<in> set (map name (peers w))" by auto
      then have "insert_peer nm priv pub ip (now e) w1 = (Inl IntegrityError, w1)"
        using p by (simp add: insert_peer_def)
      with g Inr kp ip show ?thesis by (simp add: newclient_def)
    qed
  qed
qed

lemma newclient_fresh_snd:
  assumes "fst (gen_keypair e w) = Inr (priv, pub)" and "next_free_ip c w = Inr ip"
    and "nm \<notin> set (map name (peers w))"
  shows "snd (newclient c e chat (nm # rest) w) =
           snd (apply_peer_to_interface c e pub ip
                  (snd (insert_peer nm priv pub ip (now e) (snd (gen_keypair e w)))))"
proof -
  obtain w1 where g: "gen_keypair e w = (Inr (priv, pub), w1)"
    using assms(1) by (cases "gen_keypair e w") simp
  have p: "peers w1 = peers w" using gen_keypair_peers [of e w] g by simp
  then have n: "next_free_ip c w1 = Inr ip" using assms(2) by (simp add: next_free_ip_def)
  have f: "nm \<notin> set (map name (peers w1))" using assms(3) p by simp
  obtain w2 where ins: "insert_peer nm priv pub ip (now e) w1 = (Inr (), w2)"
    using insert_peer_fresh(1) [OF f, of priv pub ip "now e"]
    by (cases "insert_peer nm priv pub ip (now e) w1") simp
  show ?thesis using g n ins by (simp add: newclient_def split: prod.splits)
qed

text \<open>
  The history of a \<open>newclient\<close> request: the one or two commands of key generation,
  which leave the registry and the interface as they were; then, if the request gets
  that far, the insert, and after it, with live interface mutation enabled, the \<open>wg set\<close>
  command of the application step.
\<close>

lemma newclient_history:
  "\<exists>K. (K = [] \<or> K = [(Ran [''wg'', ''genkey''], peers w, iface w)] \<or>
        K = [(Ran [''wg'', ''genkey''], peers w, iface w),
             (Ran [''wg'', ''pubkey''], peers w, iface w)]) \<and>
       (history (snd (newclient c e chat args w)) = history w @ K \<or>
        (\<exists>row. name row = requested_name args \<and>
           peers (snd (newclient c e chat args w)) = peers w @ [row] \<and>
           history (snd (newclient c e chat args w)) =
             history w @ K @ [(Inserted (name row), peers w @ [row], iface w)] @
             (if APPLY_PEER c
              then [(Ran [''wg'', ''set'', SERVER_INTERFACE c, ''peer'', public_key row,
                          ''allowed-ips'', address row @ ''/32''],
                     peers w @ [row], iface (snd (newclient c e chat args w)))]
              else [])))"
proof (cases args)
  case Nil
  then have "history (snd (newclient c e chat args w)) = history w @ []"
    by (simp add: newclient_def)
  then show ?thesis by blast
next
  case (Cons nm rest)
  from gen_keypair_history [of e w] obtain K where
    K: "K = [(Ran [''wg'', ''genkey''], peers w, iface w)] \<or>
        K = [(Ran [''wg'', ''genkey''], peers w, iface w),
             (Ran [''wg'', ''pubkey''], peers w, iface w)]"
    and hk: "history (snd (gen_keypair e w)) = history w @ K"
    by blast
  show ?thesis
  proof (cases "(\<exists>ex. fst (gen_keypair e w) = Inl ex) \<or> (\<exists>ex. next_free_ip c w = Inl ex) \<or>
           nm \<in> set (map name (peers w))")
    case True
    from newclient_stopped_snd [OF True, of chat rest] hk Cons
    have "history (snd (newclient c e chat args w)) = history w @ K" by simp
    with K show ?thesis by blast
  next
    case False
    then obtain priv pub ip where k: "fst (gen_keypair e w) = Inr (priv, pub)"
      and n: "next_free_ip c w = Inr ip" and f: "nm \<notin> set (map name (peers w))"
      by (cases "fst (gen_keypair e w)"; cases "next_free_ip c w") auto
    define w1 where "w1 = snd (gen_keypair e w)"
    define w2 where "w2 = snd (insert_peer nm priv pub ip (now e) w1)"
    define row where "row = \<lparr>rowid = next_rowid (peers w), name = nm, private_key = priv,
                        public_key = pub, address = ip, created_at = now e\<rparr>"
    have p1: "peers w1 = peers w" and i1: "iface w1 = iface w" by (simp_all add: w1_def)
    have f1: "nm \<notin> set (map name (peers w1))" using f p1 by simp
    have p2: "peers w2 = peers w @ [row]"
      unfolding w2_def insert_peer_fresh(2) [OF f1] by (simp add: p1 row_def)
    have i2: "iface w2 = iface w"
      unfolding w2_def insert_peer_fresh(3) [OF f1] by (simp add: i1)
    have h2: "history w2 = history w @ K @ [(Inserted nm, peers w @ [row], iface w)]"
      using insert_peer_fresh(4) [OF f1, of priv pub ip "now e"] p2 i1 hk
      by (simp add: w2_def [symmetric] w1_def [symmetric])
    have s: "snd (newclient c e chat args w) = snd (apply_peer_to_interface c e pub ip w2)"
      unfolding Cons w2_def w1_def by (rule newclient_fresh_snd [OF k n f])
    have h3: "history (snd (newclient c e chat args w)) =
             history w @ K @ [(Inserted (name row), peers w @ [row], iface w)] @
             (if APPLY_PEER c
              then [(Ran [''wg'', ''set'', SERVER_INTERFACE c, ''peer'', public_key row,
                          ''allowed-ips'', address row @ ''/32''],
                     peers w @ [row], iface (snd (newclient c e chat args w)))]
              else [])"
      unfolding s apply_peer_history [of c e pub ip w2] h2 p2 by (simp add: row_def)
    have p3: "peers (snd (newclient c e chat args w)) = peers w @ [row]"
      unfolding s by (simp add: p2)
    have "name row = requested_name args" by (simp add: row_def Cons requested_name_def)
    with p3 h3 K show ?thesis by blast
  qed
qed

lemma revoke_history:
  assumes "\<not> not_admin c chat" and "select_by_name nm w = Some row"
  shows "history (snd (revoke c e chat (nm # rest) w)) =
           history w @
           (if APPLY_PEER c
            then [(Ran [''wg'', ''set'', SERVER_INTERFACE c, ''peer'', public_key row, ''remove''],
                   peers w,
                   wg_effect [''wg'', ''set'', SERVER_INTERFACE c, ''peer'', public_key row, ''remove'']
                     (run e [''wg'', ''set'', SERVER_INTERFACE c, ''peer'', public_key row, ''remove''] [])
                     (iface w))]
            else []) @
           [(Deleted nm, peers (snd (revoke c e chat (nm # rest) w)),
             iface (snd (revoke c e chat (nm # rest) w)))]"
  using assms
  by (simp add: revoke_def delete_by_name_def subprocess_run_def Let_def split: run_result.splits)

text \<open>The removal command of a request is the command that \<open>revoke\<close> starts.\<close>

lemma revoke_calls:
  "calls (snd (revoke c e chat args w)) =
     calls w @ (case removal_command c chat args w of None \<Rightarrow> [] | Some cmd \<Rightarrow> [cmd])"
  by (simp add: revoke_def removal_command_def delete_by_name_def subprocess_run_def Let_def
        split: list.splits option.splits run_result.splits)

lemma consistent_newclient:
  assumes "consistent c w"
  shows "consistent c (snd (newclient c e chat args w))"
proof (cases args)
  case Nil
  with assms show ?thesis by (simp add: newclient_def)
next
  case (Cons nm rest)
  show ?thesis
  proof (cases "fst (gen_keypair e w)")
    case (Inl ex)
    from newclient_keygen_failed(2,3) [OF this, of c chat nm rest] assms Cons show ?thesis
      by (simp add: consistent_def iface_within_registry_def)
  next
    case (Inr kp)
    obtain priv pub where kp: "fst (gen_keypair e w) = Inr (priv, pub)"
      using Inr by (cases kp) simp
    show ?thesis
    proof (cases "next_free_ip c w")
      case (Inl ex)
      from newclient_pool_exhausted(2,3) [OF kp this, of chat nm rest] assms Cons show ?thesis
        by (simp add: consistent_def iface_within_registry_def)
    next
      case ip: (Inr ip)
      show ?thesis
      proof (cases "nm \<in> set (map name (peers w))")
        case True
        from newclient_name_taken(2,3) [OF kp ip this, of chat rest] assms Cons show ?thesis
          by (simp add: consistent_def iface_within_registry_def)
      next
        case False
        note nf = newclient_fresh(2,3) [OF kp ip False, of chat rest]
        have d: "distinct (map name (peers (snd (newclient c e chat args w))))"
          using nf(1) False assms Cons by (simp add: consistent_def)
        have sub: "iface_within_registry (snd (newclient c e chat args w))"
          using nf assms Cons
            wg_effect_add_keys [of "''wg''" "''set''" "SERVER_INTERFACE c" "''peer''" pub
               "''allowed-ips''" "ip @ ''/32''" _ "iface w"]
          by (auto simp: consistent_def iface_within_registry_def apply_peer_iface
                split: if_splits)
        have off: "\<not> APPLY_PEER c \<longrightarrow> iface (snd (newclient c e chat args w)) = []"
          using nf(2) assms Cons by (simp add: consistent_def apply_peer_iface)
        from d sub off show ?thesis by (simp add: consistent_def)
      qed
    qed
  qed
qed

lemma removal_succeedsD:
  assumes "removal_succeeds c (Revoke e chat (nm # rest)) w" and "\<not> not_admin c chat"
    and "select_by_name nm w = Some row" and "APPLY_PEER c"
  shows "\<exists>out err. run e [''wg'', ''set'', SERVER_INTERFACE c, ''peer'', public_key row, ''remove''] [] =
           Completed 0 out err"
  using assms by (simp add: removal_command_def exit_ok_def split: run_result.splits)

lemma consistent_revoke:
  assumes "consistent c w" and "removal_succeeds c (Revoke e chat args) w"
  shows "consistent c (snd (revoke c e chat args w))"
proof (cases "args = [] \<or> not_admin c chat \<or> select_by_name (requested_name args) w = None")
  case True
  from revoke_unchanged [OF this] assms(1) show ?thesis by simp
next
  case False
  then obtain nm rest row where args: "args = nm # rest" and adm: "\<not> not_admin c chat"
    and sel: "select_by_name nm w = Some row"
    by (cases args) (auto simp: requested_name_def)
  from select_by_name_SomeD [OF sel] have row: "row \<in> set (peers w)" "name row = nm" by simp_all
  note rv = revoke_existing(1,2) [OF adm sel, of e rest]
  have d: "distinct (map name (peers w))" using assms(1) by (simp add: consistent_def)
  have d': "distinct (map name (peers (snd (revoke c e chat args w))))"
    unfolding args rv(1) using d by (simp add: distinct_map_filter)
  have off: "\<not> APPLY_PEER c \<longrightarrow> iface (snd (revoke c e chat args w)) = []"
    unfolding args rv(2) using assms(1) by (simp add: consistent_def)
  have sub: "iface_within_registry (snd (revoke c e chat args w))"
  proof (cases "APPLY_PEER c")
    case False
    with assms(1) have "iface w = []" by (simp add: consistent_def)
    with False show ?thesis unfolding args by (simp add: iface_within_registry_def rv(2))
  next
    case True
    from removal_succeedsD [OF assms(2) [unfolded args] adm sel True] obtain out err where
      "run e [''wg'', ''set'', SERVER_INTERFACE c, ''peer'', public_key row, ''remove''] [] =
         Completed 0 out err"
      by blast
    with True have i: "iface (snd (revoke c e chat args w)) =
        filter (\<lambda>x. fst x \<noteq> public_key row) (iface w)"
      unfolding args rv(2) by (simp add: wg_effect_remove_ok)
    have "k \<in> set (map public_key (filter (\<lambda>p. name p \<noteq> nm) (peers w)))"
      if k: "k \<in> set (map fst (filter (\<lambda>x. fst x \<noteq> public_key row) (iface w)))" for k
    proof -
      from k have ne: "k \<noteq> public_key row" and "k \<in> set (map fst (iface w))" by auto
      with assms(1) have "k \<in> set (map public_key (peers w))"
        unfolding consistent_def iface_within_registry_def by blast
      then obtain p where p: "p \<in> set (peers w)" "public_key p = k" by auto
      have "name p \<noteq> nm"
      proof
        assume "name p = nm"
        with row have "name p = name row" by simp
        with d p(1) row(1) have "p = row"
          by (meson distinct_map inj_onD)
        with p(2) ne show False by simp
      qed
      with p show ?thesis by auto
    qed
    then show ?thesis
      unfolding iface_within_registry_def args i [unfolded args] rv(1) by blast
  qed
  from d' sub off show ?thesis by (simp add: consistent_def)
qed

lemma wg_effect_remove_keys:
  "set (map fst (wg_effect [a, b, ifc, k, pub, d] r tbl)) \<subseteq> set (map fst tbl)"
  by (auto simp: wg_effect_def split: run_result.splits)

lemma points_newclient:
  assumes "consistent c w" and "\<forall>pt \<in> set (history w). point_within_registry pt"
  shows "\<forall>pt \<in> set (history (snd (newclient c e chat args w))). point_within_registry pt"
proof -
  have now: "set (map fst (iface w)) \<subseteq> set (map public_key (peers w))"
    using assms(1) by (simp add: consistent_def iface_within_registry_def)
  have after: "set (map fst (iface (snd (newclient c e chat args w)))) \<subseteq>
      set (map public_key (peers (snd (newclient c e chat args w))))"
    using consistent_newclient [OF assms(1), of e chat args]
    by (simp add: consistent_def iface_within_registry_def)
  from newclient_history [of w c e chat args] obtain K where
    K: "K = [] \<or> K = [(Ran [''wg'', ''genkey''], peers w, iface w)] \<or>
        K = [(Ran [''wg'', ''genkey''], peers w, iface w),
             (Ran [''wg'', ''pubkey''], peers w, iface w)]"
    and h: "history (snd (newclient c e chat args w)) = history w @ K \<or>
        (\<exists>row. name row = requested_name args \<and>
           peers (snd (newclient c e chat args w)) = peers w @ [row] \<and>
           history (snd (newclient c e chat args w)) =
             history w @ K @ [(Inserted (name row), peers w @ [row], iface w)] @
             (if APPLY_PEER c
              then [(Ran [''wg'', ''set'', SERVER_INTERFACE c, ''peer'', public_key row,
                          ''allowed-ips'', address row @ ''/32''],
                     peers w @ [row], iface (snd (newclient c e chat args w)))]
              else []))"
    by blast
  have "point_within_registry (ev, peers w, iface w)" for ev
    using now by (simp add: point_within_registry_def)
  with K have k: "\<forall>pt \<in> set K. point_within_registry pt" by auto
  from h show ?thesis
  proof
    assume "history (snd (newclient c e chat args w)) = history w @ K"
    with assms(2) k show ?thesis by auto
  next
    assume "\<exists>row. name row = requested_name args \<and>
           peers (snd (newclient c e chat args w)) = peers w @ [row] \<and>
           history (snd (newclient c e chat args w)) =
             history w @ K @ [(Inserted (name row), peers w @ [row], iface w)] @
             (if APPLY_PEER c
              then [(Ran [''wg'', ''set'', SERVER_INTERFACE c, ''peer'', public_key row,
                          ''allowed-ips'', address row @ ''/32''],
                     peers w @ [row], iface (snd (newclient c e chat args w)))]
              else [])"
    then obtain row where p: "peers (snd (newclient c e chat args w)) = peers w @ [row]"
      and hh: "history (snd (newclient c e chat args w)) =
             history w @ K @ [(Inserted (name row), peers w @ [row], iface w)] @
             (if APPLY_PEER c
              then [(Ran [''wg'', ''set'', SERVER_INTERFACE c, ''peer'', public_key row,
                          ''allowed-ips'', address row @ ''/32''],
                     peers w @ [row], iface (snd (newclient c e chat args w)))]
              else [])"
      by blast
    have ins: "point_within_registry (Inserted (name row), peers w @ [row], iface w)"
      using now unfolding point_within_registry_def by auto
    have app: "point_within_registry
        (Ran [''wg'', ''set'', SERVER_INTERFACE c, ''peer'', public_key row,
              ''allowed-ips'', address row @ ''/32''],
         peers w @ [row], iface (snd (newclient c e chat args w)))"
      using after unfolding p by (simp add: point_within_registry_def)
    show ?thesis unfolding hh using assms(2) k ins app by auto
  qed
qed

lemma points_revoke:
  assumes "consistent c w" and "removal_succeeds c (Revoke e chat args) w"
    and "\<forall>pt \<in> set (history w). point_within_registry pt"
  shows "\<forall>pt \<in> set (history (snd (revoke c e chat args w))). point_within_registry pt"
proof (cases "args = [] \<or> not_admin c chat \<or> select_by_name (requested_name args) w = None")
  case True
  from revoke_unchanged [OF this] assms(3) show ?thesis by simp
next
  case False
  then obtain nm rest row where args: "args = nm # rest" and adm: "\<not> not_admin c chat"
    and sel: "select_by_name nm w = Some row"
    by (cases args) (auto simp: requested_name_def)
  have now: "set (map fst (iface w)) \<subseteq> set (map public_key (peers w))"
    using assms(1) by (simp add: consistent_def iface_within_registry_def)
  have after: "point_within_registry
      (Deleted nm, peers (snd (revoke c e chat (nm # rest) w)),
       iface (snd (revoke c e chat (nm # rest) w)))"
    using consistent_revoke [OF assms(1,2)] unfolding args
    by (simp add: consistent_def iface_within_registry_def point_within_registry_def)
  define cmd where "cmd = [''wg'', ''set'', SERVER_INTERFACE c, ''peer'', public_key row, ''remove'']"
  define tbl where "tbl = wg_effect cmd (run e cmd []) (iface w)"
  have "set (map fst tbl) \<subseteq> set (map fst (iface w))"
    unfolding tbl_def cmd_def by (rule wg_effect_remove_keys)
  with now have "set (map fst tbl) \<subseteq> set (map public_key (peers w))" by blast
  then have rm: "point_within_registry (Ran cmd, peers w, tbl)"
    by (simp add: point_within_registry_def)
  define R where "R = (if APPLY_PEER c then [(Ran cmd, peers w, tbl)] else [])"
  have r: "\<forall>pt \<in> set R. point_within_registry pt" using rm by (simp add: R_def)
  have h: "history (snd (revoke c e chat (nm # rest) w)) =
      history w @ R @
      [(Deleted nm, peers (snd (revoke c e chat (nm # rest) w)),
        iface (snd (revoke c e chat (nm # rest) w)))]"
    unfolding R_def tbl_def cmd_def by (rule revoke_history [OF adm sel])
  have "\<forall>pt \<in> set (history w @ R @
      [(Deleted nm, peers (snd (revoke c e chat (nm # rest) w)),
        iface (snd (revoke c e chat (nm # rest) w)))]). point_within_registry pt"
    using assms(3) r after by auto
  then show ?thesis unfolding args h .
qed

lemma consistent_handle:
  assumes "consistent c w" and "removal_succeeds c r w"
  shows "consistent c (snd (handle c r w))"
proof (cases r)
  case (NewClient e chat args)
  with consistent_newclient [OF assms(1), of e chat args] show ?thesis by simp
next
  case (ListClients chat)
  with assms(1) show ?thesis by simp
next
  case (GetConfig chat args)
  with assms(1) show ?thesis by simp
next
  case (Revoke e chat args)
  with consistent_revoke [OF assms(1), of e chat args] assms(2) show ?thesis
    by (simp del: removal_succeeds.simps)
qed

lemma points_handle:
  assumes "consistent c w" and "removal_succeeds c r w"
    and "\<forall>pt \<in> set (history w). point_within_registry pt"
  shows "\<forall>pt \<in> set (history (snd (handle c r w))). point_within_registry pt"
proof (cases r)
  case (NewClient e chat args)
  with points_newclient [OF assms(1,3), of e chat args] show ?thesis by simp
next
  case (ListClients chat)
  with assms(3) show ?thesis by simp
next
  case (GetConfig chat args)
  with assms(3) show ?thesis by simp
next
  case (Revoke e chat args)
  with points_revoke [OF assms(1) _ assms(3), of e chat args] assms(2) show ?thesis
    by (simp del: removal_succeeds.simps)
qed

lemma consistent_serve:
  "consistent c w \<Longrightarrow> \<forall>pt \<in> set (history w). point_within_registry pt \<Longrightarrow>
   removals_succeed c rs w \<Longrightarrow>
   consistent c (serve c rs w) \<and>
   (\<forall>pt \<in> set (history (serve c rs w)). point_within_registry pt)"
proof (induction rs arbitrary: w)
  case Nil
  then show ?case by simp
next
  case (Cons r rs)
  from Cons.prems have r: "removal_succeeds c r w"
    and rs: "removals_succeed c rs (snd (handle c r w))" by simp_all
  from Cons.IH [OF consistent_handle [OF Cons.prems(1) r]
      points_handle [OF Cons.prems(1) r Cons.prems(2)] rs]
  show ?case by simp
qed

lemma consistent_initial: "consistent c initial"
  by (simp add: consistent_def iface_within_registry_def initial_def)

lemma removals_succeed_take:
  "removals_succeed c rs w \<Longrightarrow> removals_succeed c (take k rs) w"
proof (induction rs arbitrary: k w)
  case Nil
  then show ?case by simp
next
  case (Cons r rs)
  then show ?case by (cases k) (simp_all del: removal_succeeds.simps)
qed

text \<open>The order of the events of one request.\<close>

lemma split_after_prefix:
  "xs @ ys = pre @ x # post \<Longrightarrow> x \<notin> set xs \<Longrightarrow> \<exists>pre'. pre = xs @ pre' \<and> ys = pre' @ x # post"
proof (induction xs arbitrary: pre)
  case Nil
  then show ?case by simp
next
  case step: (Cons a xs)
  show ?case
  proof (cases pre)
    case Nil
    with step.prems show ?thesis by simp
  next
    case front: (Cons b pre2)
    from step.prems front have eq: "xs @ ys = pre2 @ x # post" and nin: "x \<notin> set xs"
      and ab: "a = b" by simp_all
    from step.IH [OF eq nin] obtain pre' where "pre2 = xs @ pre'" "ys = pre' @ x # post"
      by blast
    with front ab show ?thesis by simp
  qed
qed

lemma newclient_insert_before_apply:
  assumes "events_since w (snd (newclient c e chat args w)) = pre @ Ran (''wg'' # ''set'' # cmd) # post"
  shows "Inserted (requested_name args) \<in> set pre"
proof -
  from newclient_history [of w c e chat args] obtain K where
    K: "K = [] \<or> K = [(Ran [''wg'', ''genkey''], peers w, iface w)] \<or>
        K = [(Ran [''wg'', ''genkey''], peers w, iface w),
             (Ran [''wg'', ''pubkey''], peers w, iface w)]"
    and h: "history (snd (newclient c e chat args w)) = history w @ K \<or>
        (\<exists>row. name row = requested_name args \<and>
           peers (snd (newclient c e chat args w)) = peers w @ [row] \<and>
           history (snd (newclient c e chat args w)) =
             history w @ K @ [(Inserted (name row), peers w @ [row], iface w)] @
             (if APPLY_PEER c
              then [(Ran [''wg'', ''set'', SERVER_INTERFACE c, ''peer'', public_key row,
                          ''allowed-ips'', address row @ ''/32''],
                     peers w @ [row], iface (snd (newclient c e chat args w)))]
              else []))"
    by blast
  have notk: "Ran (''wg'' # ''set'' # cmd) \<notin> set (map fst K)"
    using K by (elim disjE) simp_all
  from h show ?thesis
  proof
    assume "history (snd (newclient c e chat args w)) = history w @ K"
    from events_since_append [OF this] assms
    have eq0: "map fst K @ [] = pre @ Ran (''wg'' # ''set'' # cmd) # post" by simp
    from split_after_prefix [OF eq0 notk] show ?thesis by simp
  next
    assume "\<exists>row. name row = requested_name args \<and>
           peers (snd (newclient c e chat args w)) = peers w @ [row] \<and>
           history (snd (newclient c e chat args w)) =
             history w @ K @ [(Inserted (name row), peers w @ [row], iface w)] @
             (if APPLY_PEER c
              then [(Ran [''wg'', ''set'', SERVER_INTERFACE c, ''peer'', public_key row,
                          ''allowed-ips'', address row @ ''/32''],
                     peers w @ [row], iface (snd (newclient c e chat args w)))]
              else [])"
    then obtain row where nm: "name row = requested_name args"
      and hr: "history (snd (newclient c e chat args w)) =
             history w @ K @ [(Inserted (name row), peers w @ [row], iface w)] @
             (if APPLY_PEER c
              then [(Ran [''wg'', ''set'', SERVER_INTERFACE c, ''peer'', public_key row,
                          ''allowed-ips'', address row @ ''/32''],
                     peers w @ [row], iface (snd (newclient c e chat args w)))]
              else [])"
      by blast
    define A where "A = (if APPLY_PEER c
              then [(Ran [''wg'', ''set'', SERVER_INTERFACE c, ''peer'', public_key row,
                          ''allowed-ips'', address row @ ''/32''],
                     peers w @ [row], iface (snd (newclient c e chat args w)))]
              else [])"
    have hh: "history (snd (newclient c e chat args w)) =
             history w @ ((K @ [(Inserted (name row), peers w @ [row], iface w)]) @ A)"
      unfolding A_def using hr by simp
    have "events_since w (snd (newclient c e chat args w)) =
            (map fst K @ [Inserted (name row)]) @ map fst A"
      using events_since_append [OF hh] by simp
    with assms have eq: "(map fst K @ [Inserted (name row)]) @ map fst A =
        pre @ Ran (''wg'' # ''set'' # cmd) # post"
      by simp
    have nin: "Ran (''wg'' # ''set'' # cmd) \<notin> set (map fst K @ [Inserted (name row)])"
      using notk by simp
    from split_after_prefix [OF eq nin] obtain pre' where
      "pre = (map fst K @ [Inserted (name row)]) @ pre'" by blast
    with nm show ?thesis by simp
  qed
qed

lemma revoke_remove_before_delete:
  assumes "events_since w (snd (revoke c e chat args w)) = pre @ Deleted nm # post"
  shows "\<exists>row. select_by_name nm w = Some row \<and> nm = requested_name args \<and>
           (APPLY_PEER c \<longrightarrow>
              Ran [''wg'', ''set'', SERVER_INTERFACE c, ''peer'', public_key row, ''remove''] \<in> set pre)"
proof (cases "args = [] \<or> not_admin c chat \<or> select_by_name (requested_name args) w = None")
  case True
  from revoke_unchanged [OF this] assms show ?thesis by simp
next
  case False
  then obtain n rest row where args: "args = n # rest" and adm: "\<not> not_admin c chat"
    and sel: "select_by_name n w = Some row"
    by (cases args) (auto simp: requested_name_def)
  define R where "R = (if APPLY_PEER c
         then [Ran [''wg'', ''set'', SERVER_INTERFACE c, ''peer'', public_key row, ''remove'']]
         else [])"
  from events_since_append [OF revoke_history [OF adm sel, of e rest]] assms
  have eq: "R @ [Deleted n] = pre @ Deleted nm # post"
    unfolding args R_def by (simp split: if_splits)
  have "Deleted nm \<notin> set R" by (simp add: R_def)
  from split_after_prefix [OF eq this] obtain pre' where pre: "pre = R @ pre'"
    and "[Deleted n] = pre' @ Deleted nm # post" by blast
  then have "n = nm" by (cases pre') simp_all
  with sel args pre show ?thesis by (simp add: R_def requested_name_def)
qed

text \<open>Evaluation of \<open>revoke\<close> on the sample run.\<close>

lemma admin_1000: "\<not> not_admin sample_config 1000"
  by (simp add: not_admin_def sample_config_def str_int_def str_nat.simps digit_char_def)

lemma select_alice:
  "select_by_name ''alice'' after_alice =
     Some \<lparr>rowid = 1, name = ''alice'', private_key = ''priv-a'', public_key = ''pub-a'',
           address = ''10.0.0.2'', created_at = ''2024-01-01 00:00:00''\<rparr>"
  by (simp add: select_by_name_def peers_after_alice)

lemma remove_fails_status_1:
  "run (tool_set_fails ''a'') [''wg'', ''set'', SERVER_INTERFACE sample_config, ''peer'', ''pub-a'', ''remove''] []
     = Completed 1 [] ''Unable to modify interface: No such device''"
  by (simp add: tool_set_fails_def)

lemma revoke_alice_failed_removal:
  "fst (revoke sample_config (tool_set_fails ''a'') 1000 [''alice''] after_alice) =
     [Revoked ''alice'' ''10.0.0.2'']"
  "peers (snd (revoke sample_config (tool_set_fails ''a'') 1000 [''alice''] after_alice)) = []"
  "iface (snd (revoke sample_config (tool_set_fails ''a'') 1000 [''alice''] after_alice)) =
     [(''pub-a'', ''10.0.0.2/32'')]"
proof -
  note rv = revoke_existing [OF admin_1000 select_alice, of "tool_set_fails ''a''" "[]"]
  show "fst (revoke sample_config (tool_set_fails ''a'') 1000 [''alice''] after_alice) =
     [Revoked ''alice'' ''10.0.0.2'']"
    using rv(3) by (simp add: remove_fails_status_1)
  show "peers (snd (revoke sample_config (tool_set_fails ''a'') 1000 [''alice''] after_alice)) = []"
    using rv(1) by (simp add: peers_after_alice)
  show "iface (snd (revoke sample_config (tool_set_fails ''a'') 1000 [''alice''] after_alice)) =
     [(''pub-a'', ''10.0.0.2/32'')]"
    using rv(2) by (simp add: remove_fails_status_1 iface_after_alice wg_effect_def)
qed

lemma keygen_history_tool_ok:
  "history (snd (gen_keypair (tool_ok k) w)) =
     history w @ [(Ran [''wg'', ''genkey''], peers w, iface w),
                  (Ran [''wg'', ''pubkey''], peers w, iface w)]"
  by (simp add: gen_keypair_def subprocess_run_def tool_ok_def Let_def)

lemma events_after_alice:
  "events_since initial after_alice =
     [Ran [''wg'', ''genkey''], Ran [''wg'', ''pubkey''], Inserted ''alice'',
      Ran [''wg'', ''set'', ''wg0'', ''peer'', ''pub-a'', ''allowed-ips'', ''10.0.0.2/32'']]"
proof -
  have fresh: "''alice'' \<notin> set (map name (peers initial))" by (simp add: initial_def)
  have f1: "''alice'' \<notin> set (map name (peers (snd (gen_keypair (tool_ok ''a'') initial))))"
    using fresh by simp
  have s: "after_alice = snd (apply_peer_to_interface sample_config (tool_ok ''a'') ''pub-a'' ''10.0.0.2''
      (snd (insert_peer ''alice'' ''priv-a'' ''pub-a'' ''10.0.0.2'' (now (tool_ok ''a''))
         (snd (gen_keypair (tool_ok ''a'') initial)))))"
    unfolding after_alice_def
    by (rule newclient_fresh_snd [OF keygen_tool_ok_a next_free_ip_sample_initial fresh])
  have a: "APPLY_PEER sample_config" "SERVER_INTERFACE sample_config = ''wg0''"
    by (simp_all add: sample_config_def)
  show ?thesis
    unfolding events_since_def s apply_peer_history insert_peer_fresh(4) [OF f1]
      keygen_history_tool_ok
    by (simp add: a initial_def)
qed

lemma events_revoke_alice:
  "events_since after_alice (snd (revoke sample_config (tool_ok ''a'') 1000 [''alice''] after_alice)) =
     [Ran [''wg'', ''set'', ''wg0'', ''peer'', ''pub-a'', ''remove''], Deleted ''alice'']"
proof -
  have a: "APPLY_PEER sample_config" "SERVER_INTERFACE sample_config = ''wg0''"
    by (simp_all add: sample_config_def)
  show ?thesis
    unfolding events_since_def revoke_history [OF admin_1000 select_alice]
    by (simp add: a)
qed

lemma removals_succeed_sample:
  "removals_succeed sample_config
     [NewClient (tool_ok ''a'') 1 [''alice''], Revoke (tool_ok ''a'') 1000 [''alice'']] initial"
proof -
  have "removal_command sample_config 1000 [''alice''] after_alice =
      Some [''wg'', ''set'', ''wg0'', ''peer'', ''pub-a'', ''remove'']"
    using admin_1000 select_alice by (simp add: removal_command_def sample_config_def)
  moreover have "exit_ok (run (tool_ok ''a'') [''wg'', ''set'', ''wg0'', ''peer'', ''pub-a'', ''remove''] [])"
    by (simp add: exit_ok_def tool_ok_def)
  ultimately show ?thesis by (simp add: after_alice_def [symmetric])
qed

text \<open>
  Claim C4, as the code has it. Every effect of a request is a point of the history.
  In a \<open>newclient\<close> request the insert comes before the \<open>wg set\<close> command that applies the
  peer to the interface, and in a \<open>revoke\<close> request the deletion comes after the removal
  command (when live interface mutation is enabled), and \<open>revoke\<close> deletes the row
  whatever the removal did. So, starting from the empty registry and the empty interface
  and processing requests one after the other: as long as every removal command that a
  \<open>revoke\<close> starts exits with status 0, at every point of the history (after every single
  effect, within requests as well as between them) and after every request, each public
  key on the interface is the public key of a registry row.
\<close>

theorem interface_within_registry_at_every_point:
  "(removals_succeed c rs initial \<longrightarrow>
      (\<forall>pt \<in> set (history (serve c rs initial)). point_within_registry pt) \<and>
      (\<forall>k. iface_within_registry (serve c (take k rs) initial))) \<and>
   (\<forall>pre cmd post.
      events_since w (snd (newclient c e chat args w)) = pre @ Ran (''wg'' # ''set'' # cmd) # post \<longrightarrow>
      Inserted (requested_name args) \<in> set pre) \<and>
   (\<forall>pre nm post.
      events_since w (snd (revoke c e chat args w)) = pre @ Deleted nm # post \<longrightarrow>
      (\<exists>row. select_by_name nm w = Some row \<and> nm = requested_name args \<and>
         (APPLY_PEER c \<longrightarrow>
            Ran [''wg'', ''set'', SERVER_INTERFACE c, ''peer'', public_key row, ''remove'']
              \<in> set pre)))"
proof (intro conjI impI allI)
  assume ok: "removals_succeed c rs initial"
  have start: "\<forall>pt \<in> set (history initial). point_within_registry pt" by (simp add: initial_def)
  from consistent_serve [OF consistent_initial start ok]
  show "\<forall>pt \<in> set (history (serve c rs initial)). point_within_registry pt" by blast
  fix k
  from consistent_serve [OF consistent_initial start removals_succeed_take [OF ok, of k]]
  show "iface_within_registry (serve c (take k rs) initial)" by (simp add: consistent_def)
next
  fix pre cmd post
  assume "events_since w (snd (newclient c e chat args w)) = pre @ Ran (''wg'' # ''set'' # cmd) # post"
  then show "Inserted (requested_name args) \<in> set pre" by (rule newclient_insert_before_apply)
next
  fix pre nm post
  assume "events_since w (snd (revoke c e chat args w)) = pre @ Deleted nm # post"
  then show "\<exists>row. select_by_name nm w = Some row \<and> nm = requested_name args \<and>
         (APPLY_PEER c \<longrightarrow>
            Ran [''wg'', ''set'', SERVER_INTERFACE c, ''peer'', public_key row, ''remove'']
              \<in> set pre)"
    by (rule revoke_remove_before_delete)
qed

theorem interface_within_registry_at_every_point_witness:
  "removals_succeed sample_config
     [NewClient (tool_ok ''a'') 1 [''alice''], Revoke (tool_ok ''a'') 1000 [''alice'']] initial \<and>
   events_since initial (snd (newclient sample_config (tool_ok ''a'') 1 [''alice''] initial)) =
     [Ran [''wg'', ''genkey''], Ran [''wg'', ''pubkey''], Inserted ''alice''] @
     Ran (''wg'' # ''set'' # [''wg0'', ''peer'', ''pub-a'', ''allowed-ips'', ''10.0.0.2/32'']) # [] \<and>
   Inserted (requested_name [''alice'']) \<in>
     set [Ran [''wg'', ''genkey''], Ran [''wg'', ''pubkey''], Inserted ''alice''] \<and>
   events_since after_alice (snd (revoke sample_config (tool_ok ''a'') 1000 [''alice''] after_alice)) =
     [Ran [''wg'', ''set'', ''wg0'', ''peer'', ''pub-a'', ''remove'']] @ Deleted ''alice'' # [] \<and>
   (\<exists>row. select_by_name ''alice'' after_alice = Some row \<and>
      Ran [''wg'', ''set'', SERVER_INTERFACE sample_config, ''peer'', public_key row, ''remove'']
        \<in> set [Ran [''wg'', ''set'', ''wg0'', ''peer'', ''pub-a'', ''remove'']]) \<and>
   map fst (history (serve sample_config
     [NewClient (tool_ok ''a'') 1 [''alice''], Revoke (tool_ok ''a'') 1000 [''alice'']] initial)) =
     [Ran [''wg'', ''genkey''], Ran [''wg'', ''pubkey''], Inserted ''alice'',
      Ran [''wg'', ''set'', ''wg0'', ''peer'', ''pub-a'', ''allowed-ips'', ''10.0.0.2/32''],
      Ran [''wg'', ''set'', ''wg0'', ''peer'', ''pub-a'', ''remove''], Deleted ''alice''] \<and>
   list_all point_within_registry (history (serve sample_config
     [NewClient (tool_ok ''a'') 1 [''alice''], Revoke (tool_ok ''a'') 1000 [''alice'']] initial)) \<and>
   (\<forall>k. iface_within_registry (serve sample_config
      (take k [NewClient (tool_ok ''a'') 1 [''alice''], Revoke (tool_ok ''a'') 1000 [''alice'']])
      initial))"
proof -
  define rs where "rs = [NewClient (tool_ok ''a'') 1 [''alice''], Revoke (tool_ok ''a'') 1000 [''alice'']]"
  have ok: "removals_succeed sample_config rs initial"
    unfolding rs_def by (rule removals_succeed_sample)
  have a: "APPLY_PEER sample_config" by (simp add: sample_config_def)
  have e1: "events_since initial (snd (newclient sample_config (tool_ok ''a'') 1 [''alice''] initial)) =
     [Ran [''wg'', ''genkey''], Ran [''wg'', ''pubkey''], Inserted ''alice''] @
     Ran (''wg'' # ''set'' # [''wg0'', ''peer'', ''pub-a'', ''allowed-ips'', ''10.0.0.2/32'']) # []"
    using events_after_alice by (simp add: after_alice_def)
  have e2: "events_since after_alice (snd (revoke sample_config (tool_ok ''a'') 1000 [''alice''] after_alice)) =
     [Ran [''wg'', ''set'', ''wg0'', ''peer'', ''pub-a'', ''remove'']] @ Deleted ''alice'' # []"
    using events_revoke_alice by simp
  note t1 = interface_within_registry_at_every_point [of sample_config rs initial
      "tool_ok ''a''" 1 "[''alice'']"]
  note t2 = interface_within_registry_at_every_point [of sample_config rs after_alice
      "tool_ok ''a''" 1000 "[''alice'']"]
  from t1 ok have pts: "\<forall>pt \<in> set (history (serve sample_config rs initial)). point_within_registry pt"
    and states: "\<forall>k. iface_within_registry (serve sample_config (take k rs) initial)"
    by blast+
  from t1 e1 have ins: "Inserted (requested_name [''alice'']) \<in>
     set [Ran [''wg'', ''genkey''], Ran [''wg'', ''pubkey''], Inserted ''alice'']"
    by blast
  from t2 e2 a have rm: "\<exists>row. select_by_name ''alice'' after_alice = Some row \<and>
      Ran [''wg'', ''set'', SERVER_INTERFACE sample_config, ''peer'', public_key row, ''remove'']
        \<in> set [Ran [''wg'', ''set'', ''wg0'', ''peer'', ''pub-a'', ''remove'']]"
    by blast
  have srv: "serve sample_config rs initial =
      snd (revoke sample_config (tool_ok ''a'') 1000 [''alice''] after_alice)"
    by (simp add: rs_def after_alice_def)
  have h1: "map fst (history after_alice) =
      [Ran [''wg'', ''genkey''], Ran [''wg'', ''pubkey''], Inserted ''alice'',
       Ran [''wg'', ''set'', ''wg0'', ''peer'', ''pub-a'', ''allowed-ips'', ''10.0.0.2/32'']]"
    using events_after_alice by (simp add: events_since_def initial_def)
  have "map fst (history (snd (revoke sample_config (tool_ok ''a'') 1000 [''alice''] after_alice))) =
      map fst (history after_alice) @
      [Ran [''wg'', ''set'', ''wg0'', ''peer'', ''pub-a'', ''remove''], Deleted ''alice'']"
    unfolding revoke_history [OF admin_1000 select_alice] by (simp add: sample_config_def)
  then have len: "map fst (history (serve sample_config rs initial)) =
      [Ran [''wg'', ''genkey''], Ran [''wg'', ''pubkey''], Inserted ''alice'',
       Ran [''wg'', ''set'', ''wg0'', ''peer'', ''pub-a'', ''allowed-ips'', ''10.0.0.2/32''],
       Ran [''wg'', ''set'', ''wg0'', ''peer'', ''pub-a'', ''remove''], Deleted ''alice'']"
    unfolding srv h1 by simp
  from pts have la: "list_all point_within_registry (history (serve sample_config rs initial))"
    by (simp add: list_all_iff)
  from ok e1 ins e2 rm len la states show ?thesis unfolding rs_def by blast
qed

text \<open>
  Without the condition the claim fails: with live interface mutation enabled,
  \<open>/newclient alice\<close> followed by a \<open>/revoke alice\<close> whose removal command exits with
  status 1 leaves the entry of \<open>alice\<close>'s key on the interface and no row in the registry.
\<close>

theorem interface_within_registry_counterexample:
  "APPLY_PEER sample_config \<and>
   \<not> iface_within_registry (serve sample_config
        [NewClient (tool_ok ''a'') 1 [''alice''], Revoke (tool_set_fails ''a'') 1000 [''alice'']]
        initial)"
proof -
  have "serve sample_config
        [NewClient (tool_ok ''a'') 1 [''alice''], Revoke (tool_set_fails ''a'') 1000 [''alice'']]
        initial = snd (revoke sample_config (tool_set_fails ''a'') 1000 [''alice''] after_alice)"
    by (simp add: after_alice_def)
  then have "\<not> iface_within_registry (serve sample_config
        [NewClient (tool_ok ''a'') 1 [''alice''], Revoke (tool_set_fails ''a'') 1000 [''alice'']]
        initial)"
    by (simp add: iface_within_registry_def revoke_alice_failed_removal)
  moreover have "APPLY_PEER sample_config" by (simp add: sample_config_def)
  ultimately show ?thesis by blast
qed

text \<open>
  Claim C7 at a removal command that fails with exit status 1. The administrator revokes
  the existing peer \<open>alice\<close> with live interface mutation enabled; the removal command
  completes with status 1 and an error text. \<open>revoke\<close> sends the single reply that the
  client was deleted and no notice of the failure; the row is deleted as the claim says,
  and the interface keeps the entry. \<open>apply_peer_to_interface\<close>, given the same toolchain
  answer, raises \<open>RuntimeError('wg set failed: ...')\<close>, which \<open>newclient\<close> reports.
\<close>

theorem revoke_exit_status_not_reported:
  "APPLY_PEER sample_config \<and>
   select_by_name ''alice'' after_alice \<noteq> None \<and>
   run (tool_set_fails ''a'')
     [''wg'', ''set'', SERVER_INTERFACE sample_config, ''peer'', ''pub-a'', ''remove''] [] =
     Completed 1 [] ''Unable to modify interface: No such device'' \<and>
   fst (revoke sample_config (tool_set_fails ''a'') 1000 [''alice''] after_alice) =
     [Revoked ''alice'' ''10.0.0.2''] \<and>
   select_by_name ''alice''
     (snd (revoke sample_config (tool_set_fails ''a'') 1000 [''alice''] after_alice)) = None \<and>
   iface (snd (revoke sample_config (tool_set_fails ''a'') 1000 [''alice''] after_alice)) =
     [(''pub-a'', ''10.0.0.2/32'')] \<and>
   fst (apply_peer_to_interface sample_config (tool_set_fails ''a'') ''pub-a'' ''10.0.0.2'' after_alice) =
     Inl (RuntimeError ''wg set failed: Unable to modify interface: No such device'')"
proof -
  have a: "APPLY_PEER sample_config" by (simp add: sample_config_def)
  have s: "select_by_name ''alice'' after_alice \<noteq> None" by (simp add: select_alice)
  have g: "select_by_name ''alice''
     (snd (revoke sample_config (tool_set_fails ''a'') 1000 [''alice''] after_alice)) = None"
    by (simp add: select_by_name_def revoke_alice_failed_removal)
  have ap: "fst (apply_peer_to_interface sample_config (tool_set_fails ''a'') ''pub-a'' ''10.0.0.2'' after_alice) =
     Inl (RuntimeError ''wg set failed: Unable to modify interface: No such device'')"
    by (simp add: apply_peer_to_interface_def subprocess_run_def Let_def sample_config_def
          tool_set_fails_def)
  from a s remove_fails_status_1 revoke_alice_failed_removal(1,3) g ap show ?thesis by blast
qed

section \<open>Reading a profile back\<close>

lemma get_config_found:
  "select_by_name nm w = Some row \<Longrightarrow>
   fst (get_config c chat (nm # rest) w) =
     Document (nm @ ''.conf'') (make_conf c (private_key row) (address row)) None #
     (if qrcode_available c
      then [Photo (nm @ ''.png'') (make_conf c (private_key row) (address row)) None] else [])"
  by (simp add: get_config_def)

lemma get_config_absent:
  "select_by_name nm w = None \<Longrightarrow> fst (get_config c chat (nm # rest) w) = [NotFound]"
  by (simp add: get_config_def)

lemma get_config_same_record:
  "select_by_name nm w' = select_by_name nm w \<Longrightarrow>
   fst (get_config c chat' (nm # rest') w') = fst (get_config c chat (nm # rest) w)"
  by (simp add: get_config_def split: option.splits)

lemma get_config_any_chat: "get_config c chat1 args w = get_config c chat2 args w"
  by (simp add: get_config_def)

lemma make_conf_shows_private_key:
  "\<exists>pre post. make_conf c priv ip = pre @ ''PrivateKey = '' @ priv @ post"
  unfolding make_conf_def
  by (rule exI [of _ "''[Interface]\<newline>''"], rule exI) simp

lemma select_bob_after_alice: "select_by_name ''bob'' after_alice = None"
  by (simp add: select_by_name_def peers_after_alice)

lemma select_alice_after_bob: "select_by_name ''alice'' after_bob = select_by_name ''alice'' after_alice"
  by (simp add: select_by_name_def peers_after_alice peers_after_bob)

lemma not_admin_7: "not_admin sample_config 7"
  by (simp add: not_admin_def sample_config_def str_int_def str_nat.simps digit_char_def)

text \<open>
  Claim C9. \<open>get_config\<close> returns the state it was given, so it starts no command (no
  key material is generated), allocates nothing and leaves the registry as it is. A
  second call after the first gives the same replies, and so does any call in a state
  where the row of that name is the same: the profile text is a function of the stored
  row and the configuration. For a name with no row the reply is "client not found"; for a
  name with a row it is the profile document rendered from the stored private key and
  address (and the QR picture when available).
\<close>

theorem get_config_idempotent_read_only:
  "snd (get_config c chat args w) = w \<and>
   fst (get_config c chat' args (snd (get_config c chat args w))) = fst (get_config c chat args w) \<and>
   (select_by_name nm w' = select_by_name nm w \<longrightarrow>
      fst (get_config c chat' (nm # rest') w') = fst (get_config c chat (nm # rest) w)) \<and>
   (select_by_name nm w = None \<longrightarrow> fst (get_config c chat (nm # rest) w) = [NotFound]) \<and>
   (\<forall>row. select_by_name nm w = Some row \<longrightarrow>
      fst (get_config c chat (nm # rest) w) =
        Document (nm @ ''.conf'') (make_conf c (private_key row) (address row)) None #
        (if qrcode_available c
         then [Photo (nm @ ''.png'') (make_conf c (private_key row) (address row)) None] else []))"
proof (intro conjI)
  show "snd (get_config c chat args w) = w" by simp
  show "fst (get_config c chat' args (snd (get_config c chat args w))) = fst (get_config c chat args w)"
    by (simp add: get_config_any_chat [of c chat' args w chat])
  show "select_by_name nm w' = select_by_name nm w \<longrightarrow>
      fst (get_config c chat' (nm # rest') w') = fst (get_config c chat (nm # rest) w)"
    by (simp add: get_config_same_record)
  show "select_by_name nm w = None \<longrightarrow> fst (get_config c chat (nm # rest) w) = [NotFound]"
    by (simp add: get_config_absent)
  show "\<forall>row. select_by_name nm w = Some row \<longrightarrow>
      fst (get_config c chat (nm # rest) w) =
        Document (nm @ ''.conf'') (make_conf c (private_key row) (address row)) None #
        (if qrcode_available c
         then [Photo (nm @ ''.png'') (make_conf c (private_key row) (address row)) None] else [])"
    by (simp add: get_config_found)
qed

theorem get_config_idempotent_read_only_witness:
  "select_by_name ''alice'' after_bob = select_by_name ''alice'' after_alice \<and>
   select_by_name ''bob'' after_alice = None \<and>
   select_by_name ''alice'' after_alice =
     Some \<lparr>rowid = 1, name = ''alice'', private_key = ''priv-a'', public_key = ''pub-a'',
           address = ''10.0.0.2'', created_at = ''2024-01-01 00:00:00''\<rparr> \<and>
   snd (get_config sample_config 7 [''alice''] after_alice) = after_alice \<and>
   fst (get_config sample_config 7 [''alice''] after_alice) =
     [Document ''alice.conf'' (make_conf sample_config ''priv-a'' ''10.0.0.2'') None] \<and>
   fst (get_config sample_config 8 [''alice''] (snd (get_config sample_config 7 [''alice''] after_alice))) =
     fst (get_config sample_config 7 [''alice''] after_alice) \<and>
   fst (get_config sample_config 8 [''alice''] after_bob) =
     fst (get_config sample_config 7 [''alice''] after_alice) \<and>
   fst (get_config sample_config 7 [''bob''] after_alice) = [NotFound]"
proof -
  have q: "\<not> qrcode_available sample_config" by (simp add: sample_config_def)
  note t1 = get_config_idempotent_read_only [of sample_config 7 "[''alice'']" after_alice 8
      "''alice''" after_bob "[]" "[]"]
  note t2 = get_config_idempotent_read_only [of sample_config 7 "[''bob'']" after_alice 8
      "''bob''" after_alice "[]" "[]"]
  from t1 select_alice have "fst (get_config sample_config 7 [''alice''] after_alice) =
     [Document ''alice.conf'' (make_conf sample_config ''priv-a'' ''10.0.0.2'') None]"
    using q by simp
  moreover from t2 select_bob_after_alice
  have "fst (get_config sample_config 7 [''bob''] after_alice) = [NotFound]" by blast
  moreover from t1 select_alice_after_bob
  have "fst (get_config sample_config 8 [''alice''] after_bob) =
     fst (get_config sample_config 7 [''alice''] after_alice)" by blast
  moreover from t1 have "snd (get_config sample_config 7 [''alice''] after_alice) = after_alice"
    "fst (get_config sample_config 8 [''alice''] (snd (get_config sample_config 7 [''alice''] after_alice))) =
     fst (get_config sample_config 7 [''alice''] after_alice)" by blast+
  ultimately show ?thesis
    using select_alice select_bob_after_alice select_alice_after_bob by blast
qed

text \<open>
  Claim C10. The result of \<open>get_config\<close> does not depend on the chat identity of the
  caller: two calls that differ only in the caller give the same replies and state. For
  an existing peer the reply is the profile document, whose text contains the line
  \<open>PrivateKey = \<close> followed by the peer's private key. \<open>list_clients\<close> and \<open>revoke\<close>, in
  contrast, answer a caller who is not the administrator with the administrator-only
  reply and do nothing.
\<close>

theorem get_config_not_admin_gated:
  "get_config c chat1 args w = get_config c chat2 args w \<and>
   (\<forall>row. select_by_name nm w = Some row \<longrightarrow>
      (\<exists>pre post. Document (nm @ ''.conf'') (pre @ ''PrivateKey = '' @ private_key row @ post) None
          \<in> set (fst (get_config c chat1 (nm # rest) w)))) \<and>
   (not_admin c chat1 \<longrightarrow>
      list_clients c chat1 w = ([AdminOnlyList], w) \<and>
      revoke c e chat1 (nm # rest) w = ([AdminOnlyRevoke], w))"
proof (intro conjI)
  show "get_config c chat1 args w = get_config c chat2 args w" by (rule get_config_any_chat)
  show "\<forall>row. select_by_name nm w = Some row \<longrightarrow>
      (\<exists>pre post. Document (nm @ ''.conf'') (pre @ ''PrivateKey = '' @ private_key row @ post) None
          \<in> set (fst (get_config c chat1 (nm # rest) w)))"
  proof (intro allI impI)
    fix row assume sel: "select_by_name nm w = Some row"
    from make_conf_shows_private_key [of c "private_key row" "address row"]
    obtain pre post where "make_conf c (private_key row) (address row) =
        pre @ ''PrivateKey = '' @ private_key row @ post" by blast
    with get_config_found [OF sel, of c chat1 rest]
    have "Document (nm @ ''.conf'') (pre @ ''PrivateKey = '' @ private_key row @ post) None
          \<in> set (fst (get_config c chat1 (nm # rest) w))" by simp
    then show "\<exists>pre post. Document (nm @ ''.conf'') (pre @ ''PrivateKey = '' @ private_key row @ post) None
          \<in> set (fst (get_config c chat1 (nm # rest) w))" by blast
  qed
  show "not_admin c chat1 \<longrightarrow>
      list_clients c chat1 w = ([AdminOnlyList], w) \<and>
      revoke c e chat1 (nm # rest) w = ([AdminOnlyRevoke], w)"
    by (simp add: list_clients_def revoke_def)
qed

theorem get_config_not_admin_gated_witness:
  "not_admin sample_config 7 \<and> \<not> not_admin sample_config 1000 \<and>
   select_by_name ''alice'' after_alice =
     Some \<lparr>rowid = 1, name = ''alice'', private_key = ''priv-a'', public_key = ''pub-a'',
           address = ''10.0.0.2'', created_at = ''2024-01-01 00:00:00''\<rparr> \<and>
   get_config sample_config 7 [''alice''] after_alice =
     get_config sample_config 1000 [''alice''] after_alice \<and>
   (\<exists>pre post. Document ''alice.conf'' (pre @ ''PrivateKey = priv-a'' @ post) None
      \<in> set (fst (get_config sample_config 7 [''alice''] after_alice))) \<and>
   list_clients sample_config 7 after_alice = ([AdminOnlyList], after_alice) \<and>
   revoke sample_config (tool_ok ''a'') 7 [''alice''] after_alice = ([AdminOnlyRevoke], after_alice)"
proof -
  note t = get_config_not_admin_gated [of sample_config 7 "[''alice'']" after_alice 1000
      "''alice''" "[]" "tool_ok ''a''"]
  from t select_alice have "\<exists>pre post. Document (''alice'' @ ''.conf'')
        (pre @ ''PrivateKey = '' @ ''priv-a'' @ post) None
      \<in> set (fst (get_config sample_config 7 [''alice''] after_alice))"
    by fastforce
  then have "\<exists>pre post. Document ''alice.conf'' (pre @ ''PrivateKey = priv-a'' @ post) None
      \<in> set (fst (get_config sample_config 7 [''alice''] after_alice))"
    by simp
  with t not_admin_7 admin_1000 select_alice show ?thesis by blast
qed

section \<open>The profile renderers\<close>

text \<open>
  The renderer of the registry bot: for every private key, address and server
  configuration, the text that \<open>make_conf\<close> produces is the rendering of two sections in
  this order: \<open>Interface\<close> with the fields \<open>PrivateKey\<close>, \<open>Address\<close> (the address followed
  by \<open>/32\<close>) and \<open>DNS\<close>, then \<open>Peer\<close> with the fields \<open>PublicKey\<close>, \<open>Endpoint\<close> (host, a
  colon, the port), \<open>AllowedIPs\<close> equal to \<open>0.0.0.0/0, ::/0\<close> and \<open>PersistentKeepalive\<close>
  equal to \<open>25\<close>; every field is a \<open>Key = Value\<close> line.
\<close>

lemma make_conf_renders_profile:
  "make_conf c priv addr = render_sections (profile_sections c priv addr)"
  by (simp add: make_conf_def profile_sections_def render_section_def render_field_def)

text \<open>
  The renderer of the file-based variant writes the same sections and fields in the same
  order after an empty first line, but with the fixed address \<open>10.0.0.2/32\<close> for every
  client and with \<open>AllowedIPs\<close> equal to \<open>0.0.0.0/0\<close> only.
\<close>

lemma build_client_config_renders:
  "build_client_config k h port nm priv =
     ''\<newline>'' @ render_sections
       [(''Interface'',
           [(''PrivateKey'', priv), (''Address'', ''10.0.0.2/32''), (''DNS'', ''1.1.1.1'')]),
        (''Peer'',
           [(''PublicKey'', str_opt k), (''Endpoint'', str_opt h @ '':'' @ port),
            (''AllowedIPs'', ''0.0.0.0/0''), (''PersistentKeepalive'', ''25'')])]"
  by (simp add: build_client_config_def render_section_def render_field_def)

lemma build_client_config_tail:
  "\<exists>pre. build_client_config k h port nm priv =
      pre @ ''0/0\<newline>PersistentKeepalive = 25\<newline>''"
  unfolding build_client_config_def
  by (rule exI [of _ "''\<newline>[Interface]\<newline>PrivateKey = '' @ priv @
     ''\<newline>Address = 10.0.0.2/32\<newline>DNS = 1.1.1.1\<newline>\<newline>[Peer]\<newline>PublicKey = '' @ str_opt k @
     ''\<newline>Endpoint = '' @ str_opt h @ '':'' @ port @
     ''\<newline>AllowedIPs = 0.0.0.''"]) simp

lemma build_client_config_allowed_ips:
  "build_client_config k h port nm priv \<noteq>
     pre @ ''AllowedIPs = 0.0.0.0/0, ::/0\<newline>PersistentKeepalive = 25\<newline>''"
proof
  assume eq: "build_client_config k h port nm priv =
     pre @ ''AllowedIPs = 0.0.0.0/0, ::/0\<newline>PersistentKeepalive = 25\<newline>''"
  from build_client_config_tail [of k h port nm priv] obtain q where
    "build_client_config k h port nm priv = q @ ''0/0\<newline>PersistentKeepalive = 25\<newline>''"
    by blast
  with eq have "q @ ''0/0\<newline>PersistentKeepalive = 25\<newline>'' =
      (pre @ ''AllowedIPs = 0.0.0.0/0, :'') @ '':/0\<newline>PersistentKeepalive = 25\<newline>''"
    by simp
  then have "''0/0\<newline>PersistentKeepalive = 25\<newline>'' = '':/0\<newline>PersistentKeepalive = 25\<newline>''"
    by (subst (asm) append_eq_append_conv) simp_all
  then show False by simp
qed

lemma make_conf_allowed_ips:
  "\<exists>pre. make_conf c priv addr =
      pre @ ''AllowedIPs = 0.0.0.0/0, ::/0\<newline>PersistentKeepalive = 25\<newline>''"
  unfolding make_conf_def
  by (rule exI [of _ "''[Interface]\<newline>PrivateKey = '' @ priv @
     ''\<newline>Address = '' @ addr @
     ''/32\<newline>DNS = 1.1.1.1\<newline>\<newline>[Peer]\<newline>PublicKey = '' @ SERVER_PUBLIC_KEY c @
     ''\<newline>Endpoint = '' @ SERVER_PUBLIC_IP c @ '':'' @ str_int (SERVER_WG_PORT c) @ ''\<newline>''"]) simp

lemma build_client_config_alice:
  "build_client_config (Some ''SERVERPUB='') (Some ''203.0.113.7'') ''51820'' ''alice'' ''priv-a'' =
     ''\<newline>[Interface]\<newline>PrivateKey = priv-a\<newline>Address = 10.0.0.2/32\<newline>DNS = 1.1.1.1\<newline>\<newline>[Peer]\<newline>PublicKey = SERVERPUB=\<newline>Endpoint = 203.0.113.7:51820\<newline>AllowedIPs = 0.0.0.0/0\<newline>PersistentKeepalive = 25\<newline>''"
  by (simp add: build_client_config_def str_opt_def)

text \<open>
  Claim C5 on the two renderers of the repository. \<open>make_conf\<close> writes the document of the
  claim for every private key, address and server configuration, and its text ends with
  the lines \<open>AllowedIPs = 0.0.0.0/0, ::/0\<close> and \<open>PersistentKeepalive = 25\<close>.
  \<open>build_client_config\<close> of the file-based bot does not: whatever the client and the
  server parameters, its text is an empty line followed by the same sections and fields
  with the address \<open>10.0.0.2/32\<close> and with \<open>AllowedIPs\<close> equal to \<open>0.0.0.0/0\<close>, and it never
  ends with the two lines of the claim. The last conjunct is the text it returns for the
  client \<open>alice\<close> with the private key \<open>priv-a\<close>, the server key \<open>SERVERPUB=\<close> and the
  endpoint \<open>203.0.113.7:51820\<close>.
\<close>

theorem build_client_config_departs_from_profile:
  "make_conf c priv addr = render_sections (profile_sections c priv addr) \<and>
   (\<exists>pre. make_conf c priv addr =
      pre @ ''AllowedIPs = 0.0.0.0/0, ::/0\<newline>PersistentKeepalive = 25\<newline>'') \<and>
   build_client_config k h port nm priv' =
     ''\<newline>'' @ render_sections
       [(''Interface'',
           [(''PrivateKey'', priv'), (''Address'', ''10.0.0.2/32''), (''DNS'', ''1.1.1.1'')]),
        (''Peer'',
           [(''PublicKey'', str_opt k), (''Endpoint'', str_opt h @ '':'' @ port),
            (''AllowedIPs'', ''0.0.0.0/0''), (''PersistentKeepalive'', ''25'')])] \<and>
   (\<forall>pre. build_client_config k h port nm priv' \<noteq>
      pre @ ''AllowedIPs = 0.0.0.0/0, ::/0\<newline>PersistentKeepalive = 25\<newline>'') \<and>
   build_client_config (Some ''SERVERPUB='') (Some ''203.0.113.7'') ''51820'' ''alice'' ''priv-a'' =
     ''\<newline>[Interface]\<newline>PrivateKey = priv-a\<newline>Address = 10.0.0.2/32\<newline>DNS = 1.1.1.1\<newline>\<newline>[Peer]\<newline>PublicKey = SERVERPUB=\<newline>Endpoint = 203.0.113.7:51820\<newline>AllowedIPs = 0.0.0.0/0\<newline>PersistentKeepalive = 25\<newline>''"
  using make_conf_renders_profile [of c priv addr] make_conf_allowed_ips [of c priv addr]
    build_client_config_renders [of k h port nm priv']
    build_client_config_allowed_ips [of k h port nm priv'] build_client_config_alice
  by blast

section \<open>Requests without a client name\<close>

text \<open>
  Claim C8. \<open>newclient\<close> called without a client name answers with the usage line and
  does nothing else: the state is returned as it was, so no command was started (no key
  pair generated), no address was allocated, no row was inserted and the interface was
  not touched. The dispatcher never passes an empty word, so for every message text a
  request whose client name is empty is a request with no arguments, and is rejected in
  this way.
\<close>

theorem newclient_without_name_rejected:
  "newclient c e chat [] w = ([Usage ''/newclient <client_name>''], w) \<and>
   (requested_name (command_args msg) = [] \<longrightarrow>
      newclient c e chat (command_args msg) w = ([Usage ''/newclient <client_name>''], w))"
proof -
  have none: "newclient c e chat [] w = ([Usage ''/newclient <client_name>''], w)"
    by (simp add: newclient_def)
  have "command_args msg = []" if "requested_name (command_args msg) = []"
  proof (cases "command_args msg")
    case Nil
    then show ?thesis .
  next
    case (Cons nm rest)
    with that have "nm = []" by (simp add: requested_name_def)
    with Cons command_args_no_empty [of msg] show ?thesis by auto
  qed
  with none show ?thesis by auto
qed

theorem newclient_without_name_rejected_witness:
  "requested_name (command_args ''/newclient '') = [] \<and>
   newclient sample_config (tool_ok ''a'') 5 (command_args ''/newclient '') initial =
     ([Usage ''/newclient <client_name>''], initial)"
proof -
  have h: "requested_name (command_args ''/newclient '') = []"
    by (simp add: requested_name_def command_args_def py_split_def is_space_def)
  from newclient_without_name_rejected [of sample_config "tool_ok ''a''" 5 initial "''/newclient ''"] h
  show ?thesis by blast
qed

end
